theory Spec2Isabelle
  imports Complex_Main
begin

section \<open>The epidemic simulation of EpidemicSimulation.jsx\<close>

text \<open>
  The component keeps one simulation object (\<open>simulationRef.current\<close>) holding the array of
  people, the clock and the log of infections, and a set of parameters held in React state.
  The model below passes both explicitly.

  JavaScript numbers are IEEE doubles. They are modelled as reals, without \<open>NaN\<close> and
  the infinities. Positions, velocities and times are computed with exact arithmetic. The
  rounding of an operation to the nearest double is written out (\<open>double\<close> below) where a
  property depends on the rounded value: in \<open>updateSimulationParameters\<close>, whose result
  is compared for equality, and in the quotients that \<open>toFixed(2)\<close> prints.
  \<open>Math.random()\<close> is a source of draws that is threaded through every function in the
  order in which the source calls it.
\<close>

subsection \<open>Data\<close>

datatype status = Healthy | Exposed | Infected | Asymptomatic | Quarantined | Recovered | Dead

datatype ageGroup = Child | Adult | Senior

record person =
  id_no :: nat
  xpos :: real
  ypos :: real
  vx :: real
  vy :: real
  status :: status
  infectedTime :: "real option"
  ageGroup :: ageGroup
  exposedTime :: "real option"
  incubationPeriod :: real
  asymptomatic :: bool
  infectionRadius :: real
  personalRecovery :: real
  oldRecoveryTime :: real
  immunityEndTime :: "real option"
  infectedBy :: "nat option"
  infectionsSpread :: nat

text \<open>One entry of \<open>simulationRef.current.infections\<close>: \<open>{from, to, time}\<close>.\<close>

record infection =
  from_id :: nat
  to_id :: nat
  at_time :: real

record sim =
  people :: "person list"
  time :: real
  infections :: "infection list"

text \<open>
  The parameters of the component (its \<open>useState\<close> values). \<open>populationSize\<close> and
  \<open>initialInfected\<close> are set with \<open>parseInt\<close> from sliders whose minimum is positive.
\<close>

record config =
  speed :: real
  populationSize :: nat
  infectionRate :: real
  recoveryTime :: real
  mobilityRate :: real
  initialInfected :: nat
  quarantineDelay :: real
  maskEnabled :: bool
  healthcareCapacity :: real
  vaccinationRate :: real
  immunityDuration :: real

text \<open>The canvas element, when \<open>canvasRef.current\<close> is not null: its width and height.\<close>

record canvas =
  width :: nat
  height :: nat

text \<open>
  The random source: the sequence of values that \<open>Math.random()\<close> returns, and the number of
  draws made so far.
\<close>

record rng =
  draws :: "nat \<Rightarrow> real"
  used :: nat

definition random :: "rng \<Rightarrow> real \<times> rng" where
  "random g = (draws g (used g), g\<lparr>used := Suc (used g)\<rparr>)"

text \<open>\<open>null\<close> in arithmetic is 0 (\<open>sim.time - person.infectedTime\<close>).\<close>

definition num :: "real option \<Rightarrow> real" where
  "num v = (case v of None \<Rightarrow> 0 | Some r \<Rightarrow> r)"

subsection \<open>Rounding to double\<close>

text \<open>
  The double nearest to a real, ties to the even significand, for a result in the normal
  range (at least \<open>2 ^ -1022\<close> and below \<open>2 ^ 1024\<close> in absolute value): for
  \<open>2 ^ k \<le> |v| < 2 ^ (k + 1)\<close> the doubles around \<open>v\<close> are the integer multiples of
  \<open>2 ^ (k - 52)\<close>. This is what \<open>*\<close> and \<open>/\<close> return for the exact product and
  quotient of two doubles.
\<close>

definition pow2 :: "int \<Rightarrow> real" where
  "pow2 e = (if 0 \<le> e then 2 ^ nat e else 1 / 2 ^ nat (- e))"

definition roundEven :: "real \<Rightarrow> int" where
  "roundEven r =
     (let f = \<lfloor>r\<rfloor>; d = r - of_int f
      in if d < 1 / 2 then f else if d > 1 / 2 then f + 1 else if even f then f else f + 1)"

definition double :: "real \<Rightarrow> real" where
  "double v =
     (if v = 0 then 0
      else (let e = \<lfloor>log 2 \<bar>v\<bar>\<rfloor> - 52;
                n = roundEven (v / pow2 e)
            in of_int n * pow2 e))"

subsection \<open>updateSimulationParameters\<close>

text \<open>The body of the \<open>forEach\<close>. \<open>person.oldRecoveryTime && person.oldRecoveryTime > 0\<close>
  holds exactly when the number is positive.\<close>

definition rescale :: "config \<Rightarrow> person \<Rightarrow> person" where
  "rescale cfg person =
     (let person1 =
        (if oldRecoveryTime person > 0 then
           (let multiplier = double (personalRecovery person / oldRecoveryTime person)
            in person\<lparr>personalRecovery := double (recoveryTime cfg * multiplier)\<rparr>)
         else
           (let multiplier = double (personalRecovery person / 5000)
            in person\<lparr>personalRecovery := double (recoveryTime cfg * multiplier)\<rparr>))
      in person1\<lparr>oldRecoveryTime := recoveryTime cfg\<rparr>)"

definition updateSimulationParameters :: "config \<Rightarrow> sim \<Rightarrow> sim" where
  "updateSimulationParameters cfg s =
     (if length (people s) = 0 then s
      else s\<lparr>people := map (rescale cfg) (people s)\<rparr>)"

subsection \<open>attemptInfection\<close>

text \<open>
  \<open>attemptInfection(person1, person2)\<close> mutates the two people and pushes onto
  \<open>simulationRef.current.infections\<close>; the model returns both people, the list of infections and the random
  source, with the boolean the source returns. The callers pass two different elements of
  the array.
\<close>

definition attemptInfection ::
  "config \<Rightarrow> real \<Rightarrow> person \<Rightarrow> person \<Rightarrow> infection list \<Rightarrow> rng
     \<Rightarrow> bool \<times> person \<times> person \<times> infection list \<times> rng" where
  "attemptInfection cfg tm person1 person2 evs g =
     (if status person1 = Quarantined \<or> status person2 = Quarantined
      then (False, person1, person2, evs, g)
      else
        (let infectious = (status person1 = Infected \<or> status person1 = Asymptomatic)
         in if infectious \<and> status person2 = Healthy then
              (let maskFactor = (if maskEnabled cfg then 0.5 else 1);
                   asympFactor = (if status person1 = Asymptomatic then 0.5 else 1);
                   effectiveRate = infectionRate cfg * maskFactor * asympFactor;
                   (u, g1) = random g
               in if u < effectiveRate then
                    (let p2a = person2\<lparr>status := Exposed\<rparr>;
                         p2b = p2a\<lparr>exposedTime := Some tm\<rparr>;
                         p2c = p2b\<lparr>status := Infected\<rparr>;
                         p2d = p2c\<lparr>infectedTime := Some tm\<rparr>;
                         p2e = p2d\<lparr>infectedBy := Some (id_no person1)\<rparr>;
                         p1a = person1\<lparr>infectionsSpread := infectionsSpread person1 + 1\<rparr>
                     in (True, p1a, p2e,
                         evs @ [\<lparr>from_id = id_no person1, to_id = id_no person2, at_time = tm\<rparr>],
                         g1))
                  else (False, person1, person2, evs, g1))
            else (False, person1, person2, evs, g)))"

subsection \<open>determineOutcome\<close>

definition baseMortality :: "person \<Rightarrow> real" where
  "baseMortality person =
     (if ageGroup person = Child then 0.2 else if ageGroup person = Adult then 0.05 else 0.2)"

text \<open>
  \<open>immunityDurationRef\<close> is a field no person ever has, so
  \<open>person.immunityDurationRef || immunityDuration\<close> is \<open>immunityDuration\<close>.
\<close>

definition determineOutcome :: "config \<Rightarrow> real \<Rightarrow> person \<Rightarrow> bool \<Rightarrow> rng \<Rightarrow> person \<times> rng" where
  "determineOutcome cfg tm person overCapacity g =
     (let mortalityRate = baseMortality person * (if overCapacity then 1.5 else 1.0);
          (u, g1) = random g
      in if u < mortalityRate
         then (person\<lparr>status := Dead, vx := 0, vy := 0\<rparr>, g1)
         else (person\<lparr>status := Recovered,
                       immunityEndTime := Some (tm + immunityDuration cfg)\<rparr>, g1))"

subsection \<open>One person's step in updateSimulation\<close>

text \<open>
  The body of \<open>people.forEach\<close> (source lines 176 to 232), cut into its consecutive parts:
  the random walk (182 to 194), the change of position (197 to 200), the reflection at the
  boundary (203 to 210), the progress from exposed to infectious (213 to 217), the move to
  quarantine (220 to 225) and the check for recovery (228 to 231). \<open>isQuarantined\<close> is
  computed once, before the first part.
\<close>

text \<open>The random walk (source lines 182 to 194). The conjunction short-circuits: a draw is
  made only for a person who is not quarantined, and only when \<open>mobilityRate > 0\<close>.\<close>

definition randomWalk :: "config \<Rightarrow> bool \<Rightarrow> person \<Rightarrow> rng \<Rightarrow> person \<times> rng" where
  "randomWalk cfg isQuarantined person g =
     (if \<not> isQuarantined \<and> mobilityRate cfg > 0 then
        (let (u, g1) = random g
         in if u < mobilityRate cfg then
              (let accelScale = mobilityRate cfg;
                   (a, g2) = random g1;
                   pa = person\<lparr>vx := vx person + (a - 0.5) * 0.5 * accelScale\<rparr>;
                   (b, g3) = random g2;
                   pb = pa\<lparr>vy := vy pa + (b - 0.5) * 0.5 * accelScale\<rparr>;
                   maxSpeed = 0.2 + 1.8 * mobilityRate cfg;
                   currentSpeed = sqrt ((vx pb)\<^sup>2 + (vy pb)\<^sup>2)
               in if currentSpeed > maxSpeed then
                    (let pc = pb\<lparr>vx := (vx pb / currentSpeed) * maxSpeed\<rparr>
                     in (pc\<lparr>vy := (vy pc / currentSpeed) * maxSpeed\<rparr>, g3))
                  else (pb, g3))
            else (person, g1))
      else (person, g))"

text \<open>The change of position, scaled by the mobility.\<close>

definition displace :: "config \<Rightarrow> bool \<Rightarrow> person \<Rightarrow> person" where
  "displace cfg isQuarantined person =
     (if \<not> isQuarantined then
        (let pa = person\<lparr>xpos := xpos person + vx person * mobilityRate cfg\<rparr>
         in pa\<lparr>ypos := ypos pa + vy pa * mobilityRate cfg\<rparr>)
      else person)"

text \<open>The reflection at the boundary, first in x, then in y.\<close>

definition bounce :: "real \<Rightarrow> real \<Rightarrow> person \<Rightarrow> person" where
  "bounce w h person =
     (let pa = (if xpos person < 5 \<or> xpos person > w - 5
                then person\<lparr>vx := vx person * (- 1),
                            xpos := max 5 (min (w - 5) (xpos person))\<rparr>
                else person)
      in if ypos pa < 5 \<or> ypos pa > h - 5
         then pa\<lparr>vy := vy pa * (- 1), ypos := max 5 (min (h - 5) (ypos pa))\<rparr>
         else pa)"

text \<open>The progress from exposed to infectious, with its draw for the asymptomatic course.\<close>

definition progressExposed :: "real \<Rightarrow> person \<Rightarrow> rng \<Rightarrow> person \<times> rng" where
  "progressExposed tm person g =
     (if status person = Exposed \<and> tm - num (exposedTime person) > incubationPeriod person then
        (let (u, g1) = random g;
             pa = person\<lparr>asymptomatic := (u < 0.4)\<rparr>;
             pb = pa\<lparr>status := (if asymptomatic pa then Asymptomatic else Infected)\<rparr>
         in (pb\<lparr>infectedTime := Some tm\<rparr>, g1))
      else (person, g))"

text \<open>
  \<open>quarantineDelayRef\<close> is a field no person ever has, so
  \<open>person.quarantineDelayRef || quarantineDelay\<close> is \<open>quarantineDelay\<close>.
\<close>

definition toQuarantine :: "config \<Rightarrow> real \<Rightarrow> person \<Rightarrow> person" where
  "toQuarantine cfg tm person =
     (if status person = Infected \<and> tm - num (infectedTime person) > quarantineDelay cfg
      then person\<lparr>status := Quarantined, vx := 0, vy := 0\<rparr>
      else person)"

text \<open>The call is \<open>determineOutcome(person)\<close>: the second argument is \<open>undefined\<close>, which
  the conditional in \<open>determineOutcome\<close> reads as false.\<close>

definition checkRecovery :: "config \<Rightarrow> real \<Rightarrow> person \<Rightarrow> rng \<Rightarrow> person \<times> rng" where
  "checkRecovery cfg tm person g =
     (let isInfectiousState =
            (status person = Infected \<or> status person = Quarantined \<or> status person = Asymptomatic)
      in if isInfectiousState \<and> tm - num (infectedTime person) > personalRecovery person
         then determineOutcome cfg tm person False g
         else (person, g))"

definition updatePerson :: "config \<Rightarrow> real \<Rightarrow> real \<Rightarrow> real \<Rightarrow> person \<Rightarrow> rng \<Rightarrow> person \<times> rng" where
  "updatePerson cfg w h tm person g =
     (if status person = Dead then (person, g)
      else
        (let isQuarantined = (status person = Quarantined);
             (p1, g1) = randomWalk cfg isQuarantined person g;
             p2 = displace cfg isQuarantined p1;
             p3 = bounce w h p2;
             (p4, g4) = progressExposed tm p3 g1;
             p5 = toQuarantine cfg tm p4
         in checkRecovery cfg tm p5 g4))"

fun updatePeople :: "config \<Rightarrow> real \<Rightarrow> real \<Rightarrow> real \<Rightarrow> person list \<Rightarrow> rng \<Rightarrow> person list \<times> rng" where
  "updatePeople cfg w h tm [] g = ([], g)"
| "updatePeople cfg w h tm (p # ps) g =
     (let (p', g1) = updatePerson cfg w h tm p g;
          (ps', g2) = updatePeople cfg w h tm ps g1
      in (p' # ps', g2))"

subsection \<open>The contact scan\<close>

text \<open>\<open>Math.atan2(y, x)\<close>. Both arguments are differences of coordinates, so a zero is \<open>+0\<close>.\<close>

definition atan2 :: "real \<Rightarrow> real \<Rightarrow> real" where
  "atan2 y x =
     (if x > 0 then arctan (y / x)
      else if x < 0 then (if y \<ge> 0 then arctan (y / x) + pi else arctan (y / x) - pi)
      else if y > 0 then pi / 2
      else if y < 0 then - (pi / 2)
      else 0)"

text \<open>The body of the inner loop for the pair \<open>people[i]\<close>, \<open>people[j]\<close> (source lines 237 to 260).
  The loops give \<open>i < j < people.length\<close>.\<close>

definition collide ::
  "config \<Rightarrow> real \<Rightarrow> nat \<Rightarrow> nat \<Rightarrow> person list \<times> infection list \<times> rng
     \<Rightarrow> person list \<times> infection list \<times> rng" where
  "collide cfg tm i j st =
     (case st of (ps, evs, g) \<Rightarrow>
        (let p1 = ps ! i;
             p2 = ps ! j;
             dx = xpos p1 - xpos p2;
             dy = ypos p1 - ypos p2;
             distance = sqrt (dx * dx + dy * dy)
         in if distance < 10 then
              (let angle = atan2 dy dx;
                   sn = sin angle;
                   cs = cos angle;
                   overlap = 10 - distance;
                   p1a = p1\<lparr>xpos := xpos p1 + cs * overlap / 2\<rparr>;
                   p1b = p1a\<lparr>ypos := ypos p1a + sn * overlap / 2\<rparr>;
                   p2a = p2\<lparr>xpos := xpos p2 - cs * overlap / 2\<rparr>;
                   p2b = p2a\<lparr>ypos := ypos p2a - sn * overlap / 2\<rparr>;
                   (r1, p1c, p2c, evs1, g1) = attemptInfection cfg tm p1b p2b evs g;
                   (r2, p2d, p1d, evs2, g2) = attemptInfection cfg tm p2c p1c evs1 g1
               in (ps[i := p1d, j := p2d], evs2, g2))
            else (ps, evs, g)))"

text \<open>The two nested \<open>for\<close> loops. The array keeps its length, so the bound
  \<open>people.length\<close> is the length at the start.\<close>

definition contactScan ::
  "config \<Rightarrow> real \<Rightarrow> person list \<times> infection list \<times> rng
     \<Rightarrow> person list \<times> infection list \<times> rng" where
  "contactScan cfg tm st =
     (let n = length (fst st)
      in fold (\<lambda>i. fold (\<lambda>j. collide cfg tm i j) [i + 1 ..< n]) [0 ..< n] st)"

subsection \<open>Statistics\<close>

text \<open>The seven counters of source lines 265 to 274, and the \<open>forEach\<close> that fills them;
  \<open>asymptomatic_n\<close> is the counter \<open>asymptomatic\<close>.\<close>

record counts =
  healthy :: nat
  exposed :: nat
  asymptomatic_n :: nat
  infected :: nat
  quarantined :: nat
  recovered :: nat
  dead :: nat

definition tally :: "person \<Rightarrow> counts \<Rightarrow> counts" where
  "tally p c =
     (if status p = Healthy then c\<lparr>healthy := healthy c + 1\<rparr>
      else if status p = Exposed then c\<lparr>exposed := exposed c + 1\<rparr>
      else if status p = Asymptomatic then c\<lparr>asymptomatic_n := asymptomatic_n c + 1\<rparr>
      else if status p = Infected then c\<lparr>infected := infected c + 1\<rparr>
      else if status p = Quarantined then c\<lparr>quarantined := quarantined c + 1\<rparr>
      else if status p = Recovered then c\<lparr>recovered := recovered c + 1\<rparr>
      else if status p = Dead then c\<lparr>dead := dead c + 1\<rparr>
      else c)"

definition countStatuses :: "person list \<Rightarrow> counts" where
  "countStatuses ps =
     fold tally ps \<lparr>healthy = 0, exposed = 0, asymptomatic_n = 0, infected = 0,
                    quarantined = 0, recovered = 0, dead = 0\<rparr>"

text \<open>
  \<open>r0Value\<close> and \<open>rtValue\<close> start as the number 0 and become the string that
  \<open>toFixed(2)\<close> returns.
\<close>

datatype jsval = Num real | Str string

definition digit :: "nat \<Rightarrow> char" where
  "digit d = ''0123456789'' ! d"

fun decimal :: "nat \<Rightarrow> string" where
  "decimal n = (if n < 10 then [digit n] else decimal (n div 10) @ [digit (n mod 10)])"

declare decimal.simps [simp del]

text \<open>\<open>Number.prototype.toFixed\<close> with two fraction digits, for a value below \<open>10\<^sup>2\<^sup>1\<close>:
  the integer \<open>n\<close> with \<open>n / 100\<close> nearest to the value, the larger one of two.\<close>

definition toFixed2 :: "real \<Rightarrow> string" where
  "toFixed2 v =
     (let sgn = (if v < 0 then ''-'' else []);
          n = nat \<lfloor>\<bar>v\<bar> * 100 + 1 / 2\<rfloor>;
          m = decimal n;
          m1 = (if length m \<le> 2 then replicate (3 - length m) (CHR ''0'') @ m else m);
          k = length m1
      in sgn @ take (k - 2) m1 @ ''.'' @ drop (k - 2) m1)"

text \<open>The two filters and the two \<open>reduce\<close> calls of source lines 277 to 299.\<close>

definition totalSpread :: "person list \<Rightarrow> nat" where
  "totalSpread ps = foldl (\<lambda>sum p. sum + infectionsSpread p) 0 ps"

definition initialInfections :: "config \<Rightarrow> person list \<Rightarrow> person list" where
  "initialInfections cfg ps =
     filter (\<lambda>p. id_no p < initialInfected cfg \<and> infectedTime p \<noteq> None \<and>
                 (status p = Recovered \<or> status p = Dead)) ps"

definition completedInfections :: "person list \<Rightarrow> person list" where
  "completedInfections ps =
     filter (\<lambda>p. infectedTime p \<noteq> None \<and> (status p = Recovered \<or> status p = Dead)) ps"

definition r0Value :: "config \<Rightarrow> person list \<Rightarrow> jsval" where
  "r0Value cfg ps =
     (let sel = initialInfections cfg ps
      in if length sel > 0
         then Str (toFixed2 (double (real (totalSpread sel) / real (length sel))))
         else Num 0)"

definition rtValue :: "person list \<Rightarrow> jsval" where
  "rtValue ps =
     (let sel = completedInfections ps
      in if length sel > 0
         then Str (toFixed2 (double (real (totalSpread sel) / real (length sel))))
         else Num 0)"

text \<open>The object passed to \<open>setStats\<close>.\<close>

record stats =
  s_healthy :: nat
  s_infected :: nat
  s_recovered :: nat
  s_dead :: nat
  s_r0Value :: jsval
  s_rtValue :: jsval

definition report :: "config \<Rightarrow> person list \<Rightarrow> stats" where
  "report cfg ps =
     (let c = countStatuses ps
      in \<lparr>s_healthy = healthy c, s_infected = infected c + quarantined c,
          s_recovered = recovered c, s_dead = dead c,
          s_r0Value = r0Value cfg ps, s_rtValue = rtValue ps\<rparr>)"

subsection \<open>updateSimulation\<close>

text \<open>
  One call of \<open>updateSimulation\<close>: nothing happens without a canvas; otherwise the clock
  advances by \<open>16 * speed\<close>, every person takes its step, the pairs are scanned, and the
  statistics are computed from the resulting array. The chart series, which are React state
  outside the simulation object, are not modelled.
\<close>

definition updateSimulation ::
  "canvas option \<Rightarrow> config \<Rightarrow> sim \<Rightarrow> rng \<Rightarrow> sim \<times> rng \<times> stats option" where
  "updateSimulation cv cfg s g =
     (case cv of
        None \<Rightarrow> (s, g, None)
      | Some c \<Rightarrow>
          (let w = real (width c);
               h = real (height c);
               deltaTime = 16 * speed cfg;
               tm = time s + deltaTime;
               (ps1, g1) = updatePeople cfg w h tm (people s) g;
               (ps2, evs2, g2) = contactScan cfg tm (ps1, infections s, g1)
           in (\<lparr>people = ps2, time = tm, infections = evs2\<rparr>, g2, Some (report cfg ps2))))"

subsection \<open>initializeSimulation\<close>

text \<open>The object literal pushed for index \<open>i\<close>; its eight draws are made in the order of
  the properties.\<close>

definition newPerson :: "config \<Rightarrow> real \<Rightarrow> real \<Rightarrow> nat \<Rightarrow> rng \<Rightarrow> person \<times> rng" where
  "newPerson cfg w h i g =
     (let (r1, g1) = random g;
          (r2, g2) = random g1;
          (r3, g3) = random g2;
          (r4, g4) = random g3;
          (r5, g5) = random g4;
          (r6, g6) = random g5;
          (r7, g7) = random g6;
          (r8, g8) = random g7
      in (\<lparr>id_no = i,
           xpos = r1 * w,
           ypos = r2 * h,
           vx = (r3 - 0.5) * 2,
           vy = (r4 - 0.5) * 2,
           status = (if i < initialInfected cfg then Infected else Healthy),
           infectedTime = (if i < initialInfected cfg then Some 0 else None),
           ageGroup = (if r5 < 0.25 then Child else if r5 < 0.8 then Adult else Senior),
           exposedTime = None,
           incubationPeriod = 1000 + r6 * 2000,
           asymptomatic = False,
           infectionRadius = 8 + r7 * 4,
           personalRecovery = recoveryTime cfg * (0.7 + r8 * 0.6),
           oldRecoveryTime = recoveryTime cfg,
           immunityEndTime = None,
           infectedBy = None,
           infectionsSpread = 0\<rparr>, g8))"

text \<open>\<open>canvas?.width || 700\<close>: 700 without a canvas, and for a canvas of width 0.\<close>

definition initWidth :: "canvas option \<Rightarrow> real" where
  "initWidth cv = (case cv of None \<Rightarrow> 700 | Some c \<Rightarrow> if width c = 0 then 700 else real (width c))"

definition initHeight :: "canvas option \<Rightarrow> real" where
  "initHeight cv = (case cv of None \<Rightarrow> 500 | Some c \<Rightarrow> if height c = 0 then 500 else real (height c))"

definition initPeople :: "config \<Rightarrow> real \<Rightarrow> real \<Rightarrow> rng \<Rightarrow> person list \<times> rng" where
  "initPeople cfg w h g =
     fold (\<lambda>i (ps, g0). let (p, g1) = newPerson cfg w h i g0 in (ps @ [p], g1))
          [0 ..< populationSize cfg] ([], g)"

definition initializeSimulation :: "canvas option \<Rightarrow> config \<Rightarrow> rng \<Rightarrow> sim \<times> rng" where
  "initializeSimulation cv cfg g =
     (let (ps, g1) = initPeople cfg (initWidth cv) (initHeight cv) g
      in (\<lparr>people = ps, time = 0, infections = []\<rparr>, g1))"

subsection \<open>The states the component can be in\<close>

text \<open>
  A simulation object is reachable for the parameters \<open>cfg0\<close> when it is the result of
  \<open>initializeSimulation\<close> with them, or the result of \<open>updateSimulation\<close> or
  \<open>updateSimulationParameters\<close> on a reachable one. The parameters other than
  \<open>populationSize\<close> and \<open>initialInfected\<close> can differ from call to call (a change of those
  two runs \<open>initializeSimulation\<close> again), and so can the canvas and the random source.
\<close>

inductive reachable :: "config \<Rightarrow> sim \<Rightarrow> bool" for cfg0 :: config where
  init: "reachable cfg0 (fst (initializeSimulation cv cfg0 g))"
| tick: "reachable cfg0 s \<Longrightarrow> populationSize cfg = populationSize cfg0 \<Longrightarrow>
         initialInfected cfg = initialInfected cfg0 \<Longrightarrow>
         reachable cfg0 (fst (updateSimulation cv cfg s g))"
| params: "reachable cfg0 s \<Longrightarrow> populationSize cfg = populationSize cfg0 \<Longrightarrow>
           initialInfected cfg = initialInfected cfg0 \<Longrightarrow>
           reachable cfg0 (updateSimulationParameters cfg s)"

subsection \<open>The invariant of the people array\<close>

text \<open>
  What \<open>initializeSimulation\<close> establishes and every later call keeps: a person is healthy,
  infected, quarantined, recovered or dead, and every person who is not healthy has a time
  of infection.
\<close>

definition lifecycle :: "person \<Rightarrow> bool" where
  "lifecycle p \<longleftrightarrow>
     (status p = Healthy \<or> status p = Infected \<or> status p = Quarantined \<or>
      status p = Recovered \<or> status p = Dead) \<and>
     (status p = Healthy \<or> infectedTime p \<noteq> None)"

subsection \<open>Concrete runs\<close>

text \<open>The parameters the component starts with, and its canvas of 700 by 500.\<close>

definition defaults :: config where
  "defaults = \<lparr>speed = 1, populationSize = 200, infectionRate = 3 / 10, recoveryTime = 5000,
               mobilityRate = 1 / 2, initialInfected = 3, quarantineDelay = 3000,
               maskEnabled = False, healthcareCapacity = 30, vaccinationRate = 0,
               immunityDuration = 15000\<rparr>"

definition stage :: canvas where
  "stage = \<lparr>width = 700, height = 500\<rparr>"

text \<open>A random source that returns the listed values in turn, and 0 after them.\<close>

definition drawsFrom :: "real list \<Rightarrow> rng" where
  "drawsFrom ds = \<lparr>draws = (\<lambda>n. if n < length ds then ds ! n else 0), used = 0\<rparr>"

text \<open>An infected adult, as \<open>initializeSimulation\<close> makes the first person, and a healthy
  one six units to its right.\<close>

definition carrier :: person where
  "carrier = \<lparr>id_no = 0, xpos = 100, ypos = 125, vx = 0, vy = 0, status = Infected,
              infectedTime = Some 0, ageGroup = Adult, exposedTime = None,
              incubationPeriod = 1000, asymptomatic = False, infectionRadius = 8,
              personalRecovery = 5000, oldRecoveryTime = 5000, immunityEndTime = None,
              infectedBy = None, infectionsSpread = 0\<rparr>"

definition bystander :: person where
  "bystander = carrier\<lparr>id_no := 1, xpos := 106, status := Healthy, infectedTime := None\<rparr>"

text \<open>
  Three people in a row, the first one infected: at x = 109.375, 103.90625 and 98.4375, all
  at y = 125, at rest. The draws after the twenty-four of \<open>initializeSimulation\<close> are those
  of one call of \<open>updateSimulation\<close>: three that keep the velocities as they are, and two
  for the transmissions. All draws are doubles, and so is every number computed from them in
  this run.
\<close>

definition chainConfig :: config where
  "chainConfig = defaults\<lparr>populationSize := 3, initialInfected := 1\<rparr>"

definition chainDraws :: rng where
  "chainDraws = drawsFrom
     [5 / 32, 1 / 4, 1 / 2, 1 / 2, 1 / 2, 0, 0, 1 / 2,
      19 / 128, 1 / 4, 1 / 2, 1 / 2, 1 / 2, 0, 0, 1 / 2,
      9 / 64, 1 / 4, 1 / 2, 1 / 2, 1 / 2, 0, 0, 1 / 2,
      1 / 2, 1 / 2, 1 / 2,
      0, 0]"

definition chainStart :: "sim \<times> rng" where
  "chainStart = initializeSimulation (Some stage) chainConfig chainDraws"

definition chainTick :: "sim \<times> rng \<times> stats option" where
  "chainTick = updateSimulation (Some stage) chainConfig (fst chainStart) (snd chainStart)"

text \<open>
  Two people, with no delay before quarantine and full mobility: the infected one at
  (103.90625, 125), at rest, and a healthy one at (92.96875, 125) that moves right by half
  a unit in each call. The draws after the sixteen of \<open>initializeSimulation\<close> are those of
  two calls of \<open>updateSimulation\<close>; the accelerations drawn are all zero.
\<close>

definition pushConfig :: config where
  "pushConfig = defaults\<lparr>populationSize := 2, initialInfected := 1, mobilityRate := 1,
                         quarantineDelay := 0\<rparr>"

definition pushDraws :: rng where
  "pushDraws = drawsFrom
     [19 / 128, 1 / 4, 1 / 2, 1 / 2, 1 / 2, 0, 0, 1 / 2,
      17 / 128, 1 / 4, 3 / 4, 1 / 2, 1 / 2, 0, 0, 1 / 2,
      0, 1 / 2, 1 / 2, 0, 1 / 2, 1 / 2,
      0, 1 / 2, 1 / 2]"

definition pushStart :: "sim \<times> rng" where
  "pushStart = initializeSimulation (Some stage) pushConfig pushDraws"

definition pushTick1 :: "sim \<times> rng \<times> stats option" where
  "pushTick1 = updateSimulation (Some stage) pushConfig (fst pushStart) (snd pushStart)"

definition pushTick2 :: "sim \<times> rng \<times> stats option" where
  "pushTick2 = updateSimulation (Some stage) pushConfig (fst pushTick1) (fst (snd pushTick1))"

text \<open>A simulation whose only person has died, and parameters with a recovery time of ten
  seconds.\<close>

definition lateCase :: sim where
  "lateCase = \<lparr>people = [carrier\<lparr>status := Dead\<rparr>], time = 6000, infections = []\<rparr>"

definition slowRecovery :: config where
  "slowRecovery = defaults\<lparr>recoveryTime := 10000\<rparr>"

text \<open>
  A person whose personal recovery time is the double 3723.636363636364 under the initial
  recovery time of 5000 (what \<open>initializeSimulation\<close> computes for a draw of
  0.07454545454545473), and parameters with a recovery time of eleven seconds.
\<close>

definition roundingCase :: sim where
  "roundingCase =
     \<lparr>people = [carrier\<lparr>personalRecovery := 1023545369856931 / 274877906944\<rparr>],
      time = 0, infections = []\<rparr>"

definition elevenSeconds :: config where
  "elevenSeconds = defaults\<lparr>recoveryTime := 11000\<rparr>"

text \<open>Four people: the three first infected have recovered, the first of them after
  infecting the fourth.\<close>

definition afterWave :: "person list" where
  "afterWave =
     [carrier\<lparr>status := Recovered, infectionsSpread := 1\<rparr>,
      carrier\<lparr>id_no := 1, xpos := 200, status := Recovered\<rparr>,
      carrier\<lparr>id_no := 2, xpos := 300, status := Recovered\<rparr>,
      carrier\<lparr>id_no := 3, xpos := 400, infectedTime := Some 4000, infectedBy := Some 0\<rparr>]"

text \<open>
  Two people far apart and a recovery time of ten milliseconds: the infected one is past its
  recovery time in the first call of \<open>updateSimulation\<close>, and the draw of one half lets it
  recover.
\<close>

definition briefConfig :: config where
  "briefConfig = defaults\<lparr>populationSize := 2, initialInfected := 1, recoveryTime := 10\<rparr>"

definition briefDraws :: rng where
  "briefDraws = drawsFrom
     [1 / 8, 1 / 4, 1 / 2, 1 / 2, 1 / 2, 0, 0, 1 / 2,
      1 / 2, 1 / 4, 1 / 2, 1 / 2, 1 / 2, 0, 0, 1 / 2,
      1 / 2, 1 / 2, 1 / 2]"

definition briefStart :: "sim \<times> rng" where
  "briefStart = initializeSimulation (Some stage) briefConfig briefDraws"

definition briefTick :: "sim \<times> rng \<times> stats option" where
  "briefTick = updateSimulation (Some stage) briefConfig (fst briefStart) (snd briefStart)"

section \<open>Properties\<close>

subsection \<open>Rounding to double\<close>

lemma pow2_powr: "pow2 e = 2 powr (of_int e)"
  by (simp add: pow2_def powr_real_of_int field_simps)

lemma floor_log2:
  assumes "0 < v" "pow2 k \<le> v" "v < pow2 (k + 1)"
  shows "\<lfloor>log 2 v\<rfloor> = k"
proof -
  have "of_int k \<le> log 2 v" using assms by (simp add: le_log_iff pow2_powr)
  moreover have "log 2 v < of_int (k + 1)" using assms by (simp add: log_less_iff pow2_powr)
  ultimately show ?thesis by linarith
qed

lemma double_eval:
  assumes "pow2 k \<le> v" "v < pow2 (k + 1)"
  shows "double v = of_int (roundEven (v / pow2 (k - 52))) * pow2 (k - 52)"
proof -
  have "0 < pow2 k" by (simp add: pow2_powr)
  then have pos: "0 < v" using assms(1) by linarith
  then have "\<lfloor>log 2 \<bar>v\<bar>\<rfloor> = k" using floor_log2 [OF pos assms] by simp
  then show ?thesis using pos by (simp add: double_def Let_def)
qed

lemma double_0: "double 0 = 0"
  by (simp add: double_def)

lemma double_1: "double 1 = 1"
  by (subst double_eval [where k = 0]) (simp_all add: pow2_def roundEven_def Let_def)

lemma double_10000: "double 10000 = 10000"
  by (subst double_eval [where k = 13]) (simp_all add: pow2_def roundEven_def Let_def)

text \<open>The doubles that JavaScript has for one third and one tenth:
  \<open>0x1.5555555555555p-2\<close> and \<open>0x1.999999999999ap-4\<close>.\<close>

lemma double_third: "double (1 / 3) = 6004799503160661 / 18014398509481984"
  by (subst double_eval [where k = "- 2"]) (simp_all add: pow2_def roundEven_def Let_def)

lemma double_tenth: "double (1 / 10) = 3602879701896397 / 36028797018963968"
  by (subst double_eval [where k = "- 4"]) (simp_all add: pow2_def roundEven_def Let_def)

lemma roundEven_err: "\<bar>of_int (roundEven r) - r\<bar> \<le> 1 / 2"
proof -
  have "of_int \<lfloor>r\<rfloor> \<le> r" "r < of_int \<lfloor>r\<rfloor> + 1" by linarith+
  then show ?thesis by (auto simp: roundEven_def Let_def)
qed

lemma double_err: "\<bar>double v - v\<bar> \<le> \<bar>v\<bar> / 2 ^ 53"
proof (cases "v = 0")
  case True
  then show ?thesis by (simp add: double_def)
next
  case False
  define e where "e = \<lfloor>log 2 \<bar>v\<bar>\<rfloor>"
  define s :: real where "s = pow2 (e - 52)"
  have spos: "0 < s" by (simp add: s_def pow2_powr)
  have "of_int e \<le> log 2 \<bar>v\<bar>" unfolding e_def by linarith
  then have lo: "2 powr (of_int e) \<le> \<bar>v\<bar>" using False by (simp add: le_log_iff)
  have "2 powr (of_int e) = s * 2 ^ 52"
    unfolding s_def pow2_powr by (simp add: powr_diff)
  then have sle: "s * 2 ^ 52 \<le> \<bar>v\<bar>" using lo by simp
  have d: "double v = of_int (roundEven (v / s)) * s"
    using False by (simp add: double_def Let_def e_def s_def)
  have "\<bar>double v - v\<bar> = \<bar>of_int (roundEven (v / s)) - v / s\<bar> * s"
  proof -
    have "double v - v = (of_int (roundEven (v / s)) - v / s) * s"
      using spos d by (simp add: field_simps)
    then show ?thesis using spos by (simp add: abs_mult)
  qed
  also have "\<dots> \<le> 1 / 2 * s"
    using roundEven_err [of "v / s"] spos by (intro mult_right_mono) auto
  also have "\<dots> = s * 2 ^ 52 / 2 ^ 53" by simp
  also have "\<dots> \<le> \<bar>v\<bar> / 2 ^ 53" using sle by (intro divide_right_mono) auto
  finally show ?thesis .
qed

lemma double_roundtrip:
  assumes "0 < a"
  shows "\<bar>double (a * double (v / a)) - v\<bar> \<le> \<bar>v\<bar> * (2 / 2 ^ 53 + 1 / 2 ^ 106)"
proof -
  define u :: real where "u = 1 / 2 ^ 53"
  define q where "q = double (v / a)"
  have upos: "0 \<le> u" by (simp add: u_def)
  have "\<bar>q - v / a\<bar> \<le> \<bar>v / a\<bar> * u"
    unfolding q_def u_def using double_err [of "v / a"] by simp
  then have "a * \<bar>q - v / a\<bar> \<le> a * (\<bar>v / a\<bar> * u)"
    using assms by (intro mult_left_mono) auto
  moreover have "a * \<bar>q - v / a\<bar> = \<bar>a * q - v\<bar>"
  proof -
    have "a * q - v = a * (q - v / a)" using assms by (simp add: field_simps)
    then show ?thesis using assms by (simp add: abs_mult)
  qed
  moreover have "a * (\<bar>v / a\<bar> * u) = \<bar>v\<bar> * u" using assms by (simp add: abs_divide)
  ultimately have one: "\<bar>a * q - v\<bar> \<le> \<bar>v\<bar> * u" by simp
  then have size: "\<bar>a * q\<bar> \<le> \<bar>v\<bar> + \<bar>v\<bar> * u" by linarith
  have "\<bar>double (a * q) - a * q\<bar> \<le> \<bar>a * q\<bar> * u"
    unfolding u_def using double_err [of "a * q"] by simp
  also have "\<dots> \<le> (\<bar>v\<bar> + \<bar>v\<bar> * u) * u"
    using size upos by (intro mult_right_mono) auto
  finally have two: "\<bar>double (a * q) - a * q\<bar> \<le> (\<bar>v\<bar> + \<bar>v\<bar> * u) * u" .
  have "\<bar>double (a * q) - v\<bar> \<le> \<bar>double (a * q) - a * q\<bar> + \<bar>a * q - v\<bar>" by linarith
  also have "\<dots> \<le> (\<bar>v\<bar> + \<bar>v\<bar> * u) * u + \<bar>v\<bar> * u" using one two by linarith
  also have "\<dots> = \<bar>v\<bar> * (2 * u + u * u)" by (simp add: algebra_simps)
  also have "2 * u + u * u = 2 / 2 ^ 53 + 1 / 2 ^ 106" by (simp add: u_def)
  finally show ?thesis by (simp add: q_def)
qed

lemma rescale_twice:
  assumes "recoveryTime cfg2 = recoveryTime cfg1" and "0 \<le> recoveryTime cfg1"
  shows "(rescale cfg2 (rescale cfg1 p))\<lparr>personalRecovery := personalRecovery (rescale cfg1 p)\<rparr>
           = rescale cfg1 p \<and>
         \<bar>personalRecovery (rescale cfg2 (rescale cfg1 p)) - personalRecovery (rescale cfg1 p)\<bar>
           \<le> \<bar>personalRecovery (rescale cfg1 p)\<bar> * (2 / 2 ^ 53 + 1 / 2 ^ 106)"
proof (cases "recoveryTime cfg1 = 0")
  case True
  then show ?thesis using assms by (simp add: rescale_def Let_def double_def)
next
  case False
  then have pos: "0 < recoveryTime cfg1" using assms(2) by simp
  have old: "oldRecoveryTime (rescale cfg1 p) = recoveryTime cfg1"
    by (simp add: rescale_def Let_def)
  have pr: "personalRecovery (rescale cfg2 (rescale cfg1 p)) =
              double (recoveryTime cfg1 * double (personalRecovery (rescale cfg1 p) / recoveryTime cfg1))"
    using pos assms(1) old by (simp add: rescale_def [of cfg2] Let_def)
  have rest: "(rescale cfg2 (rescale cfg1 p))\<lparr>personalRecovery := personalRecovery (rescale cfg1 p)\<rparr>
           = rescale cfg1 p"
    using assms(1) by (simp add: rescale_def Let_def)
  show ?thesis
    using double_roundtrip [OF pos, of "personalRecovery (rescale cfg1 p)"] rest
    by (simp add: pr)
qed

lemma double_first_quotient:
  "double (1023545369856931 / 274877906944 / 5000) = 6707906935894383 / 9007199254740992"
  by (subst double_eval [where k = "- 1"]) (simp_all add: pow2_def roundEven_def Let_def)

lemma double_first_product: "double (11000 * (6707906935894383 / 9007199254740992)) = 8192"
  by (subst double_eval [where k = 13]) (simp_all add: pow2_def roundEven_def Let_def)

lemma double_second_quotient: "double (8192 / 11000) = 3353953467947191 / 4503599627370496"
  by (subst double_eval [where k = "- 1"]) (simp_all add: pow2_def roundEven_def Let_def)

lemma double_second_product:
  "double (11000 * (3353953467947191 / 4503599627370496)) = 9007199254740991 / 1099511627776"
  by (subst double_eval [where k = 12]) (simp_all add: pow2_def roundEven_def Let_def)

lemma rescale_first:
  "rescale elevenSeconds (carrier\<lparr>personalRecovery := 1023545369856931 / 274877906944\<rparr>)
     = carrier\<lparr>personalRecovery := 8192, oldRecoveryTime := 11000\<rparr>"
proof -
  have "rescale elevenSeconds (carrier\<lparr>personalRecovery := 1023545369856931 / 274877906944\<rparr>)
     = carrier\<lparr>personalRecovery := double (11000 * double (1023545369856931 / 274877906944 / 5000)),
               oldRecoveryTime := 11000\<rparr>"
    by (simp add: rescale_def Let_def elevenSeconds_def defaults_def carrier_def)
  then show ?thesis by (simp only: double_first_quotient double_first_product)
qed

lemma rescale_second:
  "rescale elevenSeconds (carrier\<lparr>personalRecovery := 8192, oldRecoveryTime := 11000\<rparr>)
     = carrier\<lparr>personalRecovery := 9007199254740991 / 1099511627776, oldRecoveryTime := 11000\<rparr>"
proof -
  have "rescale elevenSeconds (carrier\<lparr>personalRecovery := 8192, oldRecoveryTime := 11000\<rparr>)
     = carrier\<lparr>personalRecovery := double (11000 * double (8192 / 11000)),
               oldRecoveryTime := 11000\<rparr>"
    by (simp add: rescale_def Let_def elevenSeconds_def defaults_def carrier_def)
  then show ?thesis by (simp only: double_second_quotient double_second_product)
qed

subsection \<open>The array keeps its length\<close>

lemma updatePeople_length:
  "updatePeople cfg w h tm ps g = (ps', g') \<Longrightarrow> length ps' = length ps"
  by (induction ps arbitrary: g ps' g') (auto split: prod.splits)

lemma collide_length: "length (fst (collide cfg tm i j st)) = length (fst st)"
  by (cases st) (simp add: collide_def Let_def split: prod.splits)

lemma inner_length: "length (fst (fold (\<lambda>j. collide cfg tm i j) js st)) = length (fst st)"
  by (induction js arbitrary: st) (simp_all add: collide_length)

lemma outer_length:
  "length (fst (fold (\<lambda>i. fold (\<lambda>j. collide cfg tm i j) (f i)) is st)) = length (fst st)"
  by (induction "is" arbitrary: st) (simp_all add: inner_length)

lemma contactScan_length:
  "contactScan cfg tm (ps, evs, g) = (ps', evs', g') \<Longrightarrow> length ps' = length ps"
  using outer_length [of cfg tm "\<lambda>i. [i + 1 ..< length ps]" "[0 ..< length ps]" "(ps, evs, g)"]
  by (simp add: contactScan_def Let_def)

lemma updateSimulation_length:
  "length (people (fst (updateSimulation cv cfg s g))) = length (people s)"
proof (cases cv)
  case None
  then show ?thesis by (simp add: updateSimulation_def)
next
  case (Some c)
  let ?tm = "time s + 16 * speed cfg"
  obtain ps1 g1 where u:
    "updatePeople cfg (real (width c)) (real (height c)) ?tm (people s) g = (ps1, g1)"
    by (cases "updatePeople cfg (real (width c)) (real (height c)) ?tm (people s) g")
  obtain ps2 evs2 g2 where c: "contactScan cfg ?tm (ps1, infections s, g1) = (ps2, evs2, g2)"
    by (cases "contactScan cfg ?tm (ps1, infections s, g1)") auto
  have "length ps1 = length (people s)" using updatePeople_length [OF u] .
  moreover have "length ps2 = length ps1" using contactScan_length [OF c] .
  ultimately show ?thesis using Some u c by (simp add: updateSimulation_def Let_def)
qed

lemma initLoop_length:
  "length (fst (fold (\<lambda>i (ps, g0). let (p, g1) = newPerson cfg w h i g0 in (ps @ [p], g1)) is st))
    = length (fst st) + length is"
  by (induction "is" arbitrary: st) (auto simp: Let_def split: prod.splits)

lemma initPeople_length: "length (fst (initPeople cfg w h g)) = populationSize cfg"
  using initLoop_length [of cfg w h "[0 ..< populationSize cfg]" "([], g)"]
  by (simp add: initPeople_def)

lemma initializeSimulation_length:
  "length (people (fst (initializeSimulation cv cfg g))) = populationSize cfg"
  using initPeople_length [of cfg "initWidth cv" "initHeight cv" g]
  by (cases "initPeople cfg (initWidth cv) (initHeight cv) g") (simp add: initializeSimulation_def)

lemma updateSimulationParameters_length:
  "length (people (updateSimulationParameters cfg s)) = length (people s)"
  by (simp add: updateSimulationParameters_def)

lemma reachable_length: "reachable cfg0 s \<Longrightarrow> length (people s) = populationSize cfg0"
  by (induction rule: reachable.induct)
     (simp_all add: initializeSimulation_length updateSimulation_length
        updateSimulationParameters_length)

subsection \<open>The tally\<close>

lemma tally_total:
  "healthy (tally p c) + exposed (tally p c) + asymptomatic_n (tally p c) + infected (tally p c) +
   quarantined (tally p c) + recovered (tally p c) + dead (tally p c)
   = Suc (healthy c + exposed c + asymptomatic_n c + infected c + quarantined c + recovered c + dead c)"
  by (cases "status p") (simp_all add: tally_def)

lemma fold_tally_total:
  "healthy (fold tally ps c) + exposed (fold tally ps c) + asymptomatic_n (fold tally ps c) +
   infected (fold tally ps c) + quarantined (fold tally ps c) + recovered (fold tally ps c) +
   dead (fold tally ps c)
   = length ps + (healthy c + exposed c + asymptomatic_n c + infected c + quarantined c +
                  recovered c + dead c)"
proof (induction ps arbitrary: c)
  case Nil
  show ?case by simp
next
  case (Cons p ps)
  show ?case using Cons.IH [of "tally p c"] tally_total [of p c] by simp
qed

lemma countStatuses_total:
  "healthy (countStatuses ps) + exposed (countStatuses ps) + asymptomatic_n (countStatuses ps) +
   infected (countStatuses ps) + quarantined (countStatuses ps) + recovered (countStatuses ps) +
   dead (countStatuses ps) = length ps"
  using fold_tally_total [of ps "\<lparr>healthy = 0, exposed = 0, asymptomatic_n = 0, infected = 0,
                    quarantined = 0, recovered = 0, dead = 0\<rparr>"]
  by (simp add: countStatuses_def)

lemma fold_tally_lifecycle:
  "list_all lifecycle ps \<Longrightarrow>
   exposed (fold tally ps c) = exposed c \<and> asymptomatic_n (fold tally ps c) = asymptomatic_n c"
proof (induction ps arbitrary: c)
  case Nil
  show ?case by simp
next
  case (Cons p ps)
  have "exposed (tally p c) = exposed c \<and> asymptomatic_n (tally p c) = asymptomatic_n c"
    using Cons.prems by (auto simp: tally_def lifecycle_def)
  then show ?case using Cons.IH [of "tally p c"] Cons.prems by simp
qed

lemma foldl_spread:
  "foldl (\<lambda>sum p. sum + infectionsSpread p) a ps = a + sum_list (map infectionsSpread ps)"
  by (induction ps arbitrary: a) simp_all

lemma totalSpread_sum: "totalSpread ps = sum_list (map infectionsSpread ps)"
  by (simp add: totalSpread_def foldl_spread)

subsection \<open>The steps of one person\<close>

lemma randomWalk_frame:
  "randomWalk cfg q p g = (p', g') \<Longrightarrow>
   status p' = status p \<and> infectedTime p' = infectedTime p \<and> ageGroup p' = ageGroup p \<and>
   draws g' = draws g"
  by (auto simp: randomWalk_def random_def Let_def split: prod.splits if_splits)

lemma displace_frame:
  "status (displace cfg q p) = status p \<and> infectedTime (displace cfg q p) = infectedTime p \<and>
   ageGroup (displace cfg q p) = ageGroup p"
  by (simp add: displace_def Let_def)

lemma bounce_frame:
  "status (bounce w h p) = status p \<and> infectedTime (bounce w h p) = infectedTime p \<and>
   ageGroup (bounce w h p) = ageGroup p"
  by (simp add: bounce_def Let_def)

lemma progressExposed_frame:
  "progressExposed tm p g = (p', g') \<Longrightarrow>
   ageGroup p' = ageGroup p \<and> draws g' = draws g \<and>
   (status p' = status p \<or> status p' = Infected \<or> status p' = Asymptomatic)"
  by (auto simp: progressExposed_def random_def Let_def split: prod.splits if_splits)

lemma toQuarantine_frame:
  "ageGroup (toQuarantine cfg tm p) = ageGroup p \<and>
   (status (toQuarantine cfg tm p) = status p \<or> status (toQuarantine cfg tm p) = Quarantined)"
  by (simp add: toQuarantine_def)

lemma progressExposed_lifecycle:
  "lifecycle p \<Longrightarrow> progressExposed tm p g = (p, g)"
  by (auto simp: progressExposed_def lifecycle_def)

lemma toQuarantine_lifecycle: "lifecycle p \<Longrightarrow> lifecycle (toQuarantine cfg tm p)"
  by (auto simp: toQuarantine_def lifecycle_def)

lemma checkRecovery_lifecycle:
  "checkRecovery cfg tm p g = (p', g') \<Longrightarrow> lifecycle p \<Longrightarrow> lifecycle p'"
  by (auto simp: checkRecovery_def determineOutcome_def lifecycle_def Let_def
           split: prod.splits if_splits)

lemma updatePerson_alive:
  assumes "status p \<noteq> Dead"
  obtains p1 g1 p4 g4 where
    "randomWalk cfg (status p = Quarantined) p g = (p1, g1)"
    "progressExposed tm (bounce w h (displace cfg (status p = Quarantined) p1)) g1 = (p4, g4)"
    "updatePerson cfg w h tm p g = checkRecovery cfg tm (toQuarantine cfg tm p4) g4"
proof -
  obtain p1 g1 where rw: "randomWalk cfg (status p = Quarantined) p g = (p1, g1)"
    by (cases "randomWalk cfg (status p = Quarantined) p g")
  obtain p4 g4 where
    pe: "progressExposed tm (bounce w h (displace cfg (status p = Quarantined) p1)) g1 = (p4, g4)"
    by (cases "progressExposed tm (bounce w h (displace cfg (status p = Quarantined) p1)) g1")
  have "updatePerson cfg w h tm p g = checkRecovery cfg tm (toQuarantine cfg tm p4) g4"
    using assms rw pe by (simp add: updatePerson_def Let_def)
  with rw pe show ?thesis by (rule that)
qed

lemma updatePerson_lifecycle:
  assumes "updatePerson cfg w h tm p g = (p', g')" and "lifecycle p"
  shows "lifecycle p'"
proof (cases "status p = Dead")
  case True
  with assms show ?thesis by (simp add: updatePerson_def)
next
  case False
  then obtain p1 g1 p4 g4 where
    rw: "randomWalk cfg (status p = Quarantined) p g = (p1, g1)" and
    pe: "progressExposed tm (bounce w h (displace cfg (status p = Quarantined) p1)) g1 = (p4, g4)" and
    up: "updatePerson cfg w h tm p g = checkRecovery cfg tm (toQuarantine cfg tm p4) g4"
    by (rule updatePerson_alive)
  have "lifecycle p1" using randomWalk_frame [OF rw] assms(2) by (simp add: lifecycle_def)
  then have l3: "lifecycle (bounce w h (displace cfg (status p = Quarantined) p1))"
    using displace_frame [of cfg "status p = Quarantined" p1]
          bounce_frame [of w h "displace cfg (status p = Quarantined) p1"]
    by (simp add: lifecycle_def)
  then have "p4 = bounce w h (displace cfg (status p = Quarantined) p1)"
    using progressExposed_lifecycle [OF l3, of tm g1] pe by simp
  then have "lifecycle (toQuarantine cfg tm p4)" using l3 by (simp add: toQuarantine_lifecycle)
  then show ?thesis using checkRecovery_lifecycle assms(1) up by metis
qed

lemma updatePeople_lifecycle:
  "updatePeople cfg w h tm ps g = (ps', g') \<Longrightarrow> list_all lifecycle ps \<Longrightarrow>
   list_all lifecycle ps'"
  by (induction ps arbitrary: g ps' g') (auto split: prod.splits dest: updatePerson_lifecycle)

subsection \<open>The contact scan keeps the invariant\<close>

lemma attemptInfection_lifecycle:
  "attemptInfection cfg tm p1 p2 evs g = (r, p1', p2', evs', g') \<Longrightarrow>
   (lifecycle p1 \<longrightarrow> lifecycle p1') \<and> (lifecycle p2 \<longrightarrow> lifecycle p2')"
  by (auto simp: attemptInfection_def lifecycle_def Let_def split: prod.splits if_splits)

lemma list_all_update:
  assumes "list_all P ps" and "i < length ps \<Longrightarrow> P v"
  shows "list_all P (ps[i := v])"
proof (cases "i < length ps")
  case True
  then show ?thesis
    using assms set_update_subset_insert [of ps i v] by (auto simp: list_all_iff)
next
  case False
  then have "ps[i := v] = ps" by (simp add: list_update_beyond)
  then show ?thesis using assms(1) by simp
qed

lemma collide_lifecycle:
  assumes "list_all lifecycle (fst st)"
  shows "list_all lifecycle (fst (collide cfg tm i j st))"
proof -
  obtain ps evs g where st: "st = (ps, evs, g)" by (cases st)
  have all: "list_all lifecycle ps" using assms st by simp
  define p1 where "p1 = ps ! i"
  define p2 where "p2 = ps ! j"
  define d where "d = sqrt ((xpos p1 - xpos p2) * (xpos p1 - xpos p2)
                            + (ypos p1 - ypos p2) * (ypos p1 - ypos p2))"
  show ?thesis
  proof (cases "d < 10")
    case False
    then show ?thesis using all st by (simp add: collide_def Let_def p1_def p2_def d_def)
  next
    case True
    define cs where "cs = cos (atan2 (ypos p1 - ypos p2) (xpos p1 - xpos p2))"
    define sn where "sn = sin (atan2 (ypos p1 - ypos p2) (xpos p1 - xpos p2))"
    define p1b where
      "p1b = p1\<lparr>xpos := xpos p1 + cs * (10 - d) / 2, ypos := ypos p1 + sn * (10 - d) / 2\<rparr>"
    define p2b where
      "p2b = p2\<lparr>xpos := xpos p2 - cs * (10 - d) / 2, ypos := ypos p2 - sn * (10 - d) / 2\<rparr>"
    obtain r1 p1c p2c evs1 g1 where
      a1: "attemptInfection cfg tm p1b p2b evs g = (r1, p1c, p2c, evs1, g1)"
      by (cases "attemptInfection cfg tm p1b p2b evs g") auto
    obtain r2 p2d p1d evs2 g2 where
      a2: "attemptInfection cfg tm p2c p1c evs1 g1 = (r2, p2d, p1d, evs2, g2)"
      by (cases "attemptInfection cfg tm p2c p1c evs1 g1") auto
    have res: "collide cfg tm i j st = (ps[i := p1d, j := p2d], evs2, g2)"
      using True a1 a2 st
      by (simp add: collide_def Let_def p1_def p2_def d_def cs_def sn_def p1b_def p2b_def)
    have "lifecycle p1 \<longrightarrow> lifecycle p1b" "lifecycle p2 \<longrightarrow> lifecycle p2b"
      by (simp_all add: p1b_def p2b_def lifecycle_def)
    then have "(lifecycle p1 \<longrightarrow> lifecycle p1c) \<and> (lifecycle p2 \<longrightarrow> lifecycle p2c)"
      using attemptInfection_lifecycle [OF a1] by blast
    then have b: "(lifecycle p1 \<longrightarrow> lifecycle p1d) \<and> (lifecycle p2 \<longrightarrow> lifecycle p2d)"
      using attemptInfection_lifecycle [OF a2] by blast
    have "i < length ps \<Longrightarrow> lifecycle p1d"
      using all b by (simp add: p1_def list_all_length)
    with all have "list_all lifecycle (ps[i := p1d])" by (rule list_all_update)
    moreover have "j < length (ps[i := p1d]) \<Longrightarrow> lifecycle p2d"
      using all b by (simp add: p2_def list_all_length)
    ultimately have "list_all lifecycle (ps[i := p1d, j := p2d])" by (rule list_all_update)
    then show ?thesis using res by simp
  qed
qed

lemma inner_lifecycle:
  "list_all lifecycle (fst st) \<Longrightarrow>
   list_all lifecycle (fst (fold (\<lambda>j. collide cfg tm i j) js st))"
  by (induction js arbitrary: st) (simp_all add: collide_lifecycle)

lemma outer_lifecycle:
  "list_all lifecycle (fst st) \<Longrightarrow>
   list_all lifecycle (fst (fold (\<lambda>i. fold (\<lambda>j. collide cfg tm i j) (f i)) is st))"
  by (induction "is" arbitrary: st) (simp_all add: inner_lifecycle)

lemma contactScan_lifecycle:
  "contactScan cfg tm (ps, evs, g) = (ps', evs', g') \<Longrightarrow> list_all lifecycle ps \<Longrightarrow>
   list_all lifecycle ps'"
  using outer_lifecycle [of "(ps, evs, g)" cfg tm "\<lambda>i. [i + 1 ..< length ps]" "[0 ..< length ps]"]
  by (simp add: contactScan_def Let_def)

lemma updateSimulation_lifecycle:
  assumes "list_all lifecycle (people s)"
  shows "list_all lifecycle (people (fst (updateSimulation cv cfg s g)))"
proof (cases cv)
  case None
  then show ?thesis using assms by (simp add: updateSimulation_def)
next
  case (Some c)
  let ?tm = "time s + 16 * speed cfg"
  obtain ps1 g1 where u:
    "updatePeople cfg (real (width c)) (real (height c)) ?tm (people s) g = (ps1, g1)"
    by (cases "updatePeople cfg (real (width c)) (real (height c)) ?tm (people s) g")
  obtain ps2 evs2 g2 where c: "contactScan cfg ?tm (ps1, infections s, g1) = (ps2, evs2, g2)"
    by (cases "contactScan cfg ?tm (ps1, infections s, g1)") auto
  have "list_all lifecycle ps1" using updatePeople_lifecycle [OF u assms] .
  then have "list_all lifecycle ps2" using contactScan_lifecycle [OF c] by simp
  then show ?thesis using Some u c by (simp add: updateSimulation_def Let_def)
qed

subsection \<open>The invariant holds in every reachable state\<close>

lemma newPerson_lifecycle: "lifecycle (fst (newPerson cfg w h i g))"
  by (simp add: newPerson_def lifecycle_def Let_def split: prod.splits)

lemma initLoop_lifecycle:
  "list_all lifecycle (fst st) \<Longrightarrow>
   list_all lifecycle
     (fst (fold (\<lambda>i (ps, g0). let (p, g1) = newPerson cfg w h i g0 in (ps @ [p], g1)) is st))"
proof (induction "is" arbitrary: st)
  case Nil
  then show ?case by simp
next
  case (Cons i "is")
  obtain ps g0 where st: "st = (ps, g0)" by (cases st)
  obtain p g1 where np: "newPerson cfg w h i g0 = (p, g1)" by (cases "newPerson cfg w h i g0")
  have "lifecycle p" using newPerson_lifecycle [of cfg w h i g0] np by simp
  then have "list_all lifecycle (fst (ps @ [p], g1))" using Cons.prems st by simp
  from Cons.IH [OF this] show ?case using st np by simp
qed

lemma initializeSimulation_lifecycle:
  "list_all lifecycle (people (fst (initializeSimulation cv cfg g)))"
  using initLoop_lifecycle [of "([], g)" cfg "initWidth cv" "initHeight cv"
          "[0 ..< populationSize cfg]"]
  by (cases "initPeople cfg (initWidth cv) (initHeight cv) g")
     (simp add: initializeSimulation_def initPeople_def)

lemma rescale_lifecycle: "lifecycle p \<Longrightarrow> lifecycle (rescale cfg p)"
  by (simp add: rescale_def lifecycle_def Let_def)

lemma updateSimulationParameters_lifecycle:
  "list_all lifecycle (people s) \<Longrightarrow>
   list_all lifecycle (people (updateSimulationParameters cfg s))"
  by (simp add: updateSimulationParameters_def list_all_iff rescale_lifecycle)

lemma reachable_lifecycle: "reachable cfg0 s \<Longrightarrow> list_all lifecycle (people s)"
  by (induction rule: reachable.induct)
     (simp_all add: initializeSimulation_lifecycle updateSimulation_lifecycle
        updateSimulationParameters_lifecycle)

subsection \<open>Evaluating the concrete runs\<close>

lemma upt_0_2: "[0 ..< 2] = [0, 1]"
  by (simp add: upt_rec)

lemma upt_0_3: "[0 ..< 3] = [0, 1, 2]"
  by (simp add: upt_rec)

lemma sqrt_175_32: "sqrt (30625 / 1024) = 175 / 32"
  using real_sqrt_abs [of "175 / 32"] by (simp add: power2_eq_square)

lemma sqrt_845_64: "sqrt (714025 / 4096) = 845 / 64"
  using real_sqrt_abs [of "845 / 64"] by (simp add: power2_eq_square)

lemma sqrt_205_64: "sqrt (42025 / 4096) = 205 / 64"
  using real_sqrt_abs [of "205 / 64"] by (simp add: power2_eq_square)

lemma sqrt_167_16: "sqrt (27889 / 256) = 167 / 16"
  using real_sqrt_abs [of "167 / 16"] by (simp add: power2_eq_square)

lemma sqrt_159_16: "sqrt (25281 / 256) = 159 / 16"
  using real_sqrt_abs [of "159 / 16"] by (simp add: power2_eq_square)

lemma sqrt_525_2: "sqrt (275625 / 4) = 525 / 2"
  using real_sqrt_abs [of "525 / 2"] by (simp add: power2_eq_square)

lemmas sqrt_evals = sqrt_175_32 sqrt_845_64 sqrt_205_64 sqrt_167_16 sqrt_159_16 sqrt_525_2

lemmas init_unfold = initializeSimulation_def initPeople_def newPerson_def random_def Let_def
  drawsFrom_def defaults_def stage_def initWidth_def initHeight_def

lemmas tick_unfold = updateSimulation_def updatePerson_def randomWalk_def displace_def
  bounce_def progressExposed_def toQuarantine_def checkRecovery_def determineOutcome_def
  baseMortality_def num_def contactScan_def collide_def attemptInfection_def atan2_def

lemma chainStart_people:
  "fst chainStart =
     \<lparr>people = [carrier\<lparr>xpos := 875 / 8\<rparr>,
                bystander\<lparr>xpos := 3325 / 32\<rparr>,
                bystander\<lparr>id_no := 2, xpos := 1575 / 16\<rparr>],
      time = 0, infections = []\<rparr>"
  by (simp add: chainStart_def chainConfig_def chainDraws_def init_unfold upt_0_3
        carrier_def bystander_def)

lemma chainTick_sim:
  "fst chainTick =
     \<lparr>people = [carrier\<lparr>xpos := 7145 / 64, infectionsSpread := 1\<rparr>,
                bystander\<lparr>xpos := 13445 / 128, status := Infected, exposedTime := Some 16,
                          infectedTime := Some 16, infectedBy := Some 0,
                          infectionsSpread := 1\<rparr>,
                bystander\<lparr>id_no := 2, xpos := 12165 / 128, status := Infected,
                          exposedTime := Some 16, infectedTime := Some 16,
                          infectedBy := Some 1\<rparr>],
      time = 16,
      infections = [\<lparr>from_id = 0, to_id = 1, at_time = 16\<rparr>,
                    \<lparr>from_id = 1, to_id = 2, at_time = 16\<rparr>]\<rparr>"
  by (simp add: chainTick_def chainStart_def chainConfig_def chainDraws_def init_unfold upt_0_3
        tick_unfold sqrt_evals carrier_def bystander_def)

lemma chainTick_reachable: "reachable chainConfig (fst chainTick)"
  unfolding chainTick_def chainStart_def
  by (rule reachable.tick [OF reachable.init]) simp_all

lemma pushTick1_reachable: "reachable pushConfig (fst pushTick1)"
  unfolding pushTick1_def pushStart_def
  by (rule reachable.tick [OF reachable.init]) simp_all

lemma pushTick1_sim:
  "fst pushTick1 =
     \<lparr>people = [carrier\<lparr>xpos := 3325 / 32, status := Quarantined\<rparr>,
                bystander\<lparr>xpos := 2991 / 32, vx := 1 / 2\<rparr>],
      time = 16, infections = []\<rparr>"
  by (simp add: pushTick1_def pushStart_def pushConfig_def pushDraws_def init_unfold upt_0_2
        tick_unfold sqrt_evals carrier_def bystander_def)

lemma pushTick2_sim:
  "fst pushTick2 =
     \<lparr>people = [carrier\<lparr>xpos := 1663 / 16, status := Quarantined\<rparr>,
                bystander\<lparr>xpos := 1503 / 16, vx := 1 / 2\<rparr>],
      time = 32, infections = []\<rparr>"
  by (simp add: pushTick2_def pushTick1_def pushStart_def pushConfig_def pushDraws_def
        init_unfold upt_0_2 tick_unfold sqrt_evals carrier_def bystander_def)

lemma briefTick_reachable: "reachable briefConfig (fst briefTick)"
  unfolding briefTick_def briefStart_def
  by (rule reachable.tick [OF reachable.init]) simp_all

lemma briefTick_sim:
  "fst briefTick =
     \<lparr>people = [carrier\<lparr>xpos := 175 / 2, status := Recovered, personalRecovery := 10,
                        oldRecoveryTime := 10, immunityEndTime := Some 15016\<rparr>,
                bystander\<lparr>xpos := 350, personalRecovery := 10, oldRecoveryTime := 10\<rparr>],
      time = 16, infections = []\<rparr>"
  by (simp add: briefTick_def briefStart_def briefConfig_def briefDraws_def init_unfold upt_0_2
        tick_unfold sqrt_evals carrier_def bystander_def)

subsection \<open>The outcome of an infection\<close>

lemma determineOutcome_False:
  "determineOutcome cfg tm p False g =
     (if draws g (used g) < (case ageGroup p of Child \<Rightarrow> 0.2 | Adult \<Rightarrow> 0.05 | Senior \<Rightarrow> 0.2)
      then p\<lparr>status := Dead, vx := 0, vy := 0\<rparr>
      else p\<lparr>status := Recovered, immunityEndTime := Some (tm + immunityDuration cfg)\<rparr>,
      g\<lparr>used := Suc (used g)\<rparr>)"
  by (cases "ageGroup p")
     (simp_all add: determineOutcome_def baseMortality_def random_def Let_def)

lemma checkRecovery_outcome:
  assumes "checkRecovery cfg tm p g = (p', g')" and "status p' \<noteq> status p"
  shows "(status p' = Dead) =
           (draws g (used g' - 1) < (case ageGroup p of Child \<Rightarrow> 0.2 | Adult \<Rightarrow> 0.05 | Senior \<Rightarrow> 0.2)) \<and>
         (status p' = Dead \<longrightarrow> vx p' = 0 \<and> vy p' = 0) \<and>
         (status p' = Recovered \<longrightarrow> immunityEndTime p' = Some (tm + immunityDuration cfg))"
proof -
  have fired: "determineOutcome cfg tm p False g = (p', g')"
    using assms by (auto simp: checkRecovery_def Let_def split: if_splits)
  then show ?thesis
    unfolding determineOutcome_False by (auto split: if_splits)
qed

section \<open>The claims\<close>

text \<open>
  Claim C1. A transmission attempt whose draw succeeds leaves the target with status
  Exposed, not infectious; it records the time of exposure and the source, counts the
  transmission on the source and appends one record to the list of infections.

  \<open>attemptInfection\<close> assigns \<open>'exposed'\<close> and, two lines later, \<open>'infected'\<close>: the target
  comes out infected. Evaluated for an infected source with id 0 and a healthy target with
  id 1 at clock 16, with a draw of 0 against a rate of 0.3: every other effect is as
  claimed, the status is not.
\<close>

theorem attemptInfection_leaves_infected:
  "attemptInfection defaults 16 carrier bystander [] (drawsFrom [0]) =
     (True,
      carrier\<lparr>infectionsSpread := 1\<rparr>,
      bystander\<lparr>status := Infected, exposedTime := Some 16, infectedTime := Some 16,
                infectedBy := Some 0\<rparr>,
      [\<lparr>from_id = 0, to_id = 1, at_time = 16\<rparr>],
      (drawsFrom [0])\<lparr>used := 1\<rparr>)
   \<and> status (fst (snd (snd (attemptInfection defaults 16 carrier bystander [] (drawsFrom [0])))))
       \<noteq> Exposed"
  by (simp add: attemptInfection_def random_def Let_def drawsFrom_def defaults_def carrier_def
        bystander_def)

text \<open>
  Claim C2. A person who is quarantined or dead when \<open>updateSimulation\<close> is called has
  velocity (0, 0) and the same position after the call as before it.

  The step of a quarantined person leaves its position alone, but the contact scan pushes
  both people of every pair closer than 10 apart, whatever their status. In the run below
  the first person is quarantined in the first call, at (103.90625, 125) and at rest; in
  the second call the other person comes within 9.9375 of it, and the scan moves the
  quarantined person to x = 103.9375.
\<close>

theorem quarantined_person_is_pushed:
  "reachable pushConfig (fst pushTick1) \<and>
   status (people (fst pushTick1) ! 0) = Quarantined \<and>
   vx (people (fst pushTick1) ! 0) = 0 \<and> vy (people (fst pushTick1) ! 0) = 0 \<and>
   xpos (people (fst pushTick1) ! 0) = 3325 / 32 \<and>
   pushTick2 = updateSimulation (Some stage) pushConfig (fst pushTick1) (fst (snd pushTick1)) \<and>
   status (people (fst pushTick2) ! 0) = Quarantined \<and>
   xpos (people (fst pushTick2) ! 0) = 1663 / 16"
proof -
  have "pushTick2 = updateSimulation (Some stage) pushConfig (fst pushTick1) (fst (snd pushTick1))"
    by (simp add: pushTick2_def)
  moreover have "status (people (fst pushTick1) ! 0) = Quarantined \<and>
      vx (people (fst pushTick1) ! 0) = 0 \<and> vy (people (fst pushTick1) ! 0) = 0 \<and>
      xpos (people (fst pushTick1) ! 0) = 3325 / 32"
    by (simp add: pushTick1_sim carrier_def)
  moreover have "status (people (fst pushTick2) ! 0) = Quarantined \<and>
      xpos (people (fst pushTick2) ! 0) = 1663 / 16"
    by (simp add: pushTick2_sim carrier_def)
  ultimately show ?thesis using pushTick1_reachable by blast
qed

text \<open>
  Claim C3, as stated: \<open>updateSimulationParameters\<close> is idempotent in the recovery
  time: a second call with the same recovery time leaves every \<open>personalRecovery\<close> equal
  to its value after the first call.

  Each call divides by the remembered recovery time and multiplies by the new one, and both
  operations round. For a personal recovery time of 3723.636363636364 under a recovery time
  of 5000, a change to 11000 gives 8192, and a second call with 11000 gives
  8191.999999999999 (the double below 8192).
\<close>

theorem updateSimulationParameters_idempotent_counterexample:
  "map personalRecovery (people roundingCase) = [1023545369856931 / 274877906944] \<and>
   map oldRecoveryTime (people roundingCase) = [5000] \<and>
   recoveryTime elevenSeconds = 11000 \<and>
   map personalRecovery (people (updateSimulationParameters elevenSeconds roundingCase))
     = [8192] \<and>
   map personalRecovery (people (updateSimulationParameters elevenSeconds
                                   (updateSimulationParameters elevenSeconds roundingCase)))
     = [9007199254740991 / 1099511627776]"
  by (simp add: updateSimulationParameters_def roundingCase_def rescale_first rescale_second)
     (simp add: carrier_def elevenSeconds_def defaults_def)

text \<open>
  Claim C3, amended: for a recovery time that is not negative, a second call of
  \<open>updateSimulationParameters\<close> with the same recovery time leaves the clock, the list of
  infections and every field of every person other than \<open>personalRecovery\<close> as the first
  call left them, and changes each \<open>personalRecovery\<close> by at most the rounding of one
  division and one multiplication: a relative error of \<open>2 ^ -52 + 2 ^ -106\<close>.
\<close>

theorem updateSimulationParameters_second_call:
  assumes "recoveryTime cfg2 = recoveryTime cfg1" and "0 \<le> recoveryTime cfg1"
  shows "time (updateSimulationParameters cfg2 (updateSimulationParameters cfg1 s))
           = time (updateSimulationParameters cfg1 s) \<and>
         infections (updateSimulationParameters cfg2 (updateSimulationParameters cfg1 s))
           = infections (updateSimulationParameters cfg1 s) \<and>
         list_all2
           (\<lambda>p2 p1. p2\<lparr>personalRecovery := personalRecovery p1\<rparr> = p1 \<and>
                    \<bar>personalRecovery p2 - personalRecovery p1\<bar>
                      \<le> \<bar>personalRecovery p1\<bar> * (2 / 2 ^ 53 + 1 / 2 ^ 106))
           (people (updateSimulationParameters cfg2 (updateSimulationParameters cfg1 s)))
           (people (updateSimulationParameters cfg1 s))"
proof (cases "people s = []")
  case True
  then show ?thesis by (simp add: updateSimulationParameters_def)
next
  case False
  have "list_all2
           (\<lambda>p2 p1. p2\<lparr>personalRecovery := personalRecovery p1\<rparr> = p1 \<and>
                    \<bar>personalRecovery p2 - personalRecovery p1\<bar>
                      \<le> \<bar>personalRecovery p1\<bar> * (2 / 2 ^ 53 + 1 / 2 ^ 106))
           (map (rescale cfg2) (map (rescale cfg1) (people s))) (map (rescale cfg1) (people s))"
    using rescale_twice [OF assms] by (simp add: list_all2_map1 list_all2_map2 list_all2_same)
  then show ?thesis using False by (simp add: updateSimulationParameters_def)
qed

theorem updateSimulationParameters_second_call_witness:
  "recoveryTime elevenSeconds = recoveryTime elevenSeconds \<and> 0 \<le> recoveryTime elevenSeconds \<and>
   list_all2
     (\<lambda>p2 p1. p2\<lparr>personalRecovery := personalRecovery p1\<rparr> = p1 \<and>
              \<bar>personalRecovery p2 - personalRecovery p1\<bar>
                \<le> \<bar>personalRecovery p1\<bar> * (2 / 2 ^ 53 + 1 / 2 ^ 106))
     [carrier\<lparr>personalRecovery := 9007199254740991 / 1099511627776, oldRecoveryTime := 11000\<rparr>]
     [carrier\<lparr>personalRecovery := 8192, oldRecoveryTime := 11000\<rparr>]"
proof -
  have h: "0 \<le> recoveryTime elevenSeconds" by (simp add: elevenSeconds_def defaults_def)
  have one: "people (updateSimulationParameters elevenSeconds roundingCase)
               = [carrier\<lparr>personalRecovery := 8192, oldRecoveryTime := 11000\<rparr>]"
    by (simp add: updateSimulationParameters_def roundingCase_def rescale_first)
  have two: "people (updateSimulationParameters elevenSeconds
                       (updateSimulationParameters elevenSeconds roundingCase))
               = [carrier\<lparr>personalRecovery := 9007199254740991 / 1099511627776,
                          oldRecoveryTime := 11000\<rparr>]"
    by (simp add: updateSimulationParameters_def roundingCase_def rescale_first rescale_second)
  show ?thesis
    using updateSimulationParameters_second_call [OF refl h, of roundingCase] h
    unfolding one two by simp
qed

text \<open>
  Claim C4, as stated: \<open>updateSimulationParameters\<close> never alters a person's status,
  position or velocity, and leaves a dead person untouched in every field.

  The second half fails: the function rescales every person of the array and has no test
  of the status. A dead person with a personal recovery time of 5000 under a recovery time
  of 5000 has 10000 after a change of the recovery time to 10000.
\<close>

theorem updateSimulationParameters_dead_counterexample:
  "status (people lateCase ! 0) = Dead \<and>
   personalRecovery (people lateCase ! 0) = 5000 \<and>
   status (people (updateSimulationParameters slowRecovery lateCase) ! 0) = Dead \<and>
   personalRecovery (people (updateSimulationParameters slowRecovery lateCase) ! 0) = 10000"
  by (simp add: lateCase_def slowRecovery_def defaults_def carrier_def
        updateSimulationParameters_def rescale_def double_1 double_10000)

text \<open>
  Claim C4, amended: \<open>updateSimulationParameters\<close> never alters a person's status, position
  or velocity, nor any field other than \<open>personalRecovery\<close> and \<open>oldRecoveryTime\<close>, nor the
  clock or the list of infections; it rescales \<open>personalRecovery\<close> for every person, the
  dead included: the new recovery time times the quotient of \<open>personalRecovery\<close> by the
  person's remembered recovery time (by 5000 when that is not positive), both operations
  rounded; and it remembers the new recovery time.
\<close>

theorem updateSimulationParameters_frame:
  "map status (people (updateSimulationParameters cfg s)) = map status (people s) \<and>
   map xpos (people (updateSimulationParameters cfg s)) = map xpos (people s) \<and>
   map ypos (people (updateSimulationParameters cfg s)) = map ypos (people s) \<and>
   map vx (people (updateSimulationParameters cfg s)) = map vx (people s) \<and>
   map vy (people (updateSimulationParameters cfg s)) = map vy (people s) \<and>
   map (\<lambda>p. p\<lparr>personalRecovery := 0, oldRecoveryTime := 0\<rparr>)
       (people (updateSimulationParameters cfg s))
     = map (\<lambda>p. p\<lparr>personalRecovery := 0, oldRecoveryTime := 0\<rparr>) (people s) \<and>
   map personalRecovery (people (updateSimulationParameters cfg s))
     = map (\<lambda>p. double (recoveryTime cfg *
                  double (personalRecovery p /
                          (if oldRecoveryTime p > 0 then oldRecoveryTime p else 5000))))
           (people s) \<and>
   map oldRecoveryTime (people (updateSimulationParameters cfg s))
     = map (\<lambda>p. recoveryTime cfg) (people s) \<and>
   time (updateSimulationParameters cfg s) = time s \<and>
   infections (updateSimulationParameters cfg s) = infections s"
  by (simp add: updateSimulationParameters_def rescale_def Let_def)

text \<open>
  Claim C5. Population conservation: after \<open>initializeSimulation\<close> and after every call of
  \<open>updateSimulation\<close>, the counts of healthy, exposed, asymptomatic, infected, quarantined,
  recovered and dead people sum to \<open>populationSize\<close>.
\<close>

theorem population_conserved:
  assumes "reachable cfg0 s"
  shows "healthy (countStatuses (people s)) + exposed (countStatuses (people s)) +
         asymptomatic_n (countStatuses (people s)) + infected (countStatuses (people s)) +
         quarantined (countStatuses (people s)) + recovered (countStatuses (people s)) +
         dead (countStatuses (people s)) = populationSize cfg0
         \<and> length (people s) = populationSize cfg0"
  using reachable_length [OF assms] countStatuses_total [of "people s"] by simp

theorem population_conserved_witness:
  "reachable chainConfig (fst chainTick) \<and>
   populationSize chainConfig = 3 \<and>
   countStatuses (people (fst chainTick))
     = \<lparr>healthy = 0, exposed = 0, asymptomatic_n = 0, infected = 3, quarantined = 0,
        recovered = 0, dead = 0\<rparr> \<and>
   healthy (countStatuses (people (fst chainTick))) + exposed (countStatuses (people (fst chainTick))) +
   asymptomatic_n (countStatuses (people (fst chainTick))) + infected (countStatuses (people (fst chainTick))) +
   quarantined (countStatuses (people (fst chainTick))) + recovered (countStatuses (people (fst chainTick))) +
   dead (countStatuses (people (fst chainTick))) = 3"
proof -
  have c: "countStatuses (people (fst chainTick))
             = \<lparr>healthy = 0, exposed = 0, asymptomatic_n = 0, infected = 3, quarantined = 0,
                recovered = 0, dead = 0\<rparr>"
    by (simp add: chainTick_sim countStatuses_def tally_def carrier_def bystander_def)
  have n: "populationSize chainConfig = 3" by (simp add: chainConfig_def defaults_def)
  show ?thesis
    using population_conserved [OF chainTick_reachable] chainTick_reachable n
    by (simp add: c)
qed

text \<open>
  Claim C6. A transmission attempt changes state only if the source is infected or
  asymptomatic and the target is healthy, in which case neither of them is quarantined; it
  then makes one draw and succeeds exactly when the draw is below
  \<open>infectionRate * maskFactor * asympFactor\<close>, with a mask factor of 0.5 when masks are
  enabled and 1 otherwise, and an asymptomatic factor of 0.5 when the source is asymptomatic
  and 1 otherwise. Without these preconditions no draw is made, and whenever the attempt
  does not succeed both people and the list of infections are unchanged.
\<close>

theorem attemptInfection_contract:
  "(let pre = ((status p1 = Infected \<or> status p1 = Asymptomatic) \<and> status p2 = Healthy);
        rate = infectionRate cfg * (if maskEnabled cfg then 0.5 else 1)
                 * (if status p1 = Asymptomatic then 0.5 else 1);
        (ok, p1', p2', evs', g') = attemptInfection cfg tm p1 p2 evs g
    in (pre \<longrightarrow> status p1 \<noteq> Quarantined \<and> status p2 \<noteq> Quarantined) \<and>
       ok = (pre \<and> draws g (used g) < rate) \<and>
       g' = (if pre then g\<lparr>used := Suc (used g)\<rparr> else g) \<and>
       (\<not> ok \<longrightarrow> p1' = p1 \<and> p2' = p2 \<and> evs' = evs) \<and>
       (ok \<longrightarrow> status p2' \<noteq> status p2))"
  by (auto simp: attemptInfection_def random_def Let_def split: prod.splits)

theorem attemptInfection_contract_witness:
  "status carrier = Infected \<and> status bystander = Healthy \<and>
   infectionRate defaults * (if maskEnabled defaults then 0.5 else 1)
     * (if status carrier = Asymptomatic then 0.5 else 1) = 3 / 10 \<and>
   fst (attemptInfection defaults 16 carrier bystander [] (drawsFrom [0])) \<and>
   \<not> fst (attemptInfection defaults 16 carrier bystander [] (drawsFrom [1 / 2])) \<and>
   \<not> fst (attemptInfection defaults 16 bystander carrier [] (drawsFrom [0]))"
  using attemptInfection_contract [of carrier bystander defaults 16 "[]" "drawsFrom [0]"]
        attemptInfection_contract [of carrier bystander defaults 16 "[]" "drawsFrom [1 / 2]"]
        attemptInfection_contract [of bystander carrier defaults 16 "[]" "drawsFrom [0]"]
  by (simp add: carrier_def bystander_def defaults_def drawsFrom_def Let_def split: prod.splits)

text \<open>
  Claim C7, as stated: in each call, R0 equals the mean of \<open>infectionsSpread\<close> over the
  people with \<open>id < initialInfected\<close> who are recovered or dead, and is absent when there
  are none; Rt equals the mean over all people who are recovered or dead, and is absent
  when there are none.

  The values handed to \<open>setStats\<close> are not the means: they are the strings that
  \<open>toFixed(2)\<close> makes of them, and the number 0 when there is nobody to average over.
  With three recovered index cases who infected one person between them the mean is one
  third and both values are the string 0.33; with nobody recovered or dead both are 0.
\<close>

theorem reproduction_numbers_counterexample:
  "initialInfections defaults afterWave = take 3 afterWave \<and>
   completedInfections afterWave = take 3 afterWave \<and>
   real (sum_list (map infectionsSpread (take 3 afterWave))) / real (length (take 3 afterWave))
     = 1 / 3 \<and>
   s_r0Value (report defaults afterWave) = Str ''0.33'' \<and>
   s_rtValue (report defaults afterWave) = Str ''0.33'' \<and>
   s_r0Value (report defaults [carrier, bystander]) = Num 0 \<and>
   s_rtValue (report defaults [carrier, bystander]) = Num 0"
  by (simp add: report_def r0Value_def rtValue_def initialInfections_def
        completedInfections_def totalSpread_def afterWave_def carrier_def bystander_def
        defaults_def toFixed2_def Let_def decimal.simps digit_def double_third)

text \<open>
  Claim C7, amended: in each call on a reachable state, R0 is the mean of
  \<open>infectionsSpread\<close> over exactly the people with \<open>id < initialInfected\<close> who are recovered
  or dead, as a double, rounded to two decimals and reported as the string \<open>toFixed(2)\<close>
  returns, and is the number 0 when there are none; Rt is the same over all people who are recovered or
  dead. (In a reachable state every recovered or dead person has a time of infection, so
  the test \<open>infectedTime !== null\<close> of the source removes nobody.)
\<close>

theorem reproduction_numbers:
  assumes "reachable cfg0 s"
  shows "s_r0Value (report cfg (people s)) =
           (let sel = filter (\<lambda>p. id_no p < initialInfected cfg \<and>
                                   (status p = Recovered \<or> status p = Dead)) (people s)
            in if sel = [] then Num 0
               else Str (toFixed2 (double (real (sum_list (map infectionsSpread sel))
                                            / real (length sel)))))
         \<and>
         s_rtValue (report cfg (people s)) =
           (let sel = filter (\<lambda>p. status p = Recovered \<or> status p = Dead) (people s)
            in if sel = [] then Num 0
               else Str (toFixed2 (double (real (sum_list (map infectionsSpread sel))
                                            / real (length sel)))))"
proof -
  have dated: "\<forall>p \<in> set (people s). status p = Recovered \<or> status p = Dead \<longrightarrow> infectedTime p \<noteq> None"
    using reachable_lifecycle [OF assms] by (auto simp: list_all_iff lifecycle_def)
  have i: "initialInfections cfg (people s) =
             filter (\<lambda>p. id_no p < initialInfected cfg \<and> (status p = Recovered \<or> status p = Dead))
                    (people s)"
    unfolding initialInfections_def using dated by (intro filter_cong) auto
  have c: "completedInfections (people s) =
             filter (\<lambda>p. status p = Recovered \<or> status p = Dead) (people s)"
    unfolding completedInfections_def using dated by (intro filter_cong) auto
  show ?thesis
    by (simp add: report_def r0Value_def rtValue_def i c totalSpread_sum Let_def)
qed

theorem reproduction_numbers_witness:
  "reachable briefConfig (fst briefTick) \<and>
   filter (\<lambda>p. id_no p < initialInfected briefConfig \<and> (status p = Recovered \<or> status p = Dead))
          (people (fst briefTick)) = [people (fst briefTick) ! 0] \<and>
   s_r0Value (report briefConfig (people (fst briefTick))) = Str ''0.00'' \<and>
   s_rtValue (report briefConfig (people (fst briefTick))) = Str ''0.00''"
proof -
  have sel: "filter (\<lambda>p. id_no p < initialInfected briefConfig \<and>
                           (status p = Recovered \<or> status p = Dead))
                    (people (fst briefTick)) = [people (fst briefTick) ! 0]"
    by (simp add: briefTick_sim briefConfig_def defaults_def carrier_def bystander_def)
  have all: "filter (\<lambda>p. status p = Recovered \<or> status p = Dead) (people (fst briefTick))
               = [people (fst briefTick) ! 0]"
    by (simp add: briefTick_sim carrier_def bystander_def)
  have spread: "infectionsSpread (people (fst briefTick) ! 0) = 0"
    by (simp add: briefTick_sim carrier_def)
  have zero: "toFixed2 0 = ''0.00''"
    by (simp add: toFixed2_def Let_def decimal.simps digit_def)
  show ?thesis
    using reproduction_numbers [OF briefTick_reachable, of briefConfig] briefTick_reachable
    by (simp add: sel all spread zero double_0)
qed

text \<open>
  Claim C8. When \<open>determineOutcome\<close> resolves a person whose infectious period has ended, the
  person dies exactly when the draw is below the base mortality of its age group: 0.20 for
  a child, 0.05 for an adult, 0.20 for a senior. The only call, in the step of a person,
  passes no over-capacity flag, so the factor 1.5 never applies: whenever that step turns a
  person dead or recovered, it is the last draw made that decided, against the base rate. A
  dead person gets velocity (0, 0); a recovered one gets the clock plus \<open>immunityDuration\<close>
  as \<open>immunityEndTime\<close>.
\<close>

theorem determineOutcome_base_mortality:
  "determineOutcome cfg tm p False g =
     (if draws g (used g) < (case ageGroup p of Child \<Rightarrow> 0.2 | Adult \<Rightarrow> 0.05 | Senior \<Rightarrow> 0.2)
      then p\<lparr>status := Dead, vx := 0, vy := 0\<rparr>
      else p\<lparr>status := Recovered, immunityEndTime := Some (tm + immunityDuration cfg)\<rparr>,
      g\<lparr>used := Suc (used g)\<rparr>)
   \<and>
   (updatePerson cfg w h tm q g = (q', g') \<and> status q' \<noteq> status q \<and>
    (status q' = Dead \<or> status q' = Recovered) \<longrightarrow>
      (status q' = Dead) =
        (draws g (used g' - 1) < (case ageGroup q of Child \<Rightarrow> 0.2 | Adult \<Rightarrow> 0.05 | Senior \<Rightarrow> 0.2)) \<and>
      (status q' = Dead \<longrightarrow> vx q' = 0 \<and> vy q' = 0) \<and>
      (status q' = Recovered \<longrightarrow> immunityEndTime q' = Some (tm + immunityDuration cfg)))"
proof (rule conjI)
  show "determineOutcome cfg tm p False g =
     (if draws g (used g) < (case ageGroup p of Child \<Rightarrow> 0.2 | Adult \<Rightarrow> 0.05 | Senior \<Rightarrow> 0.2)
      then p\<lparr>status := Dead, vx := 0, vy := 0\<rparr>
      else p\<lparr>status := Recovered, immunityEndTime := Some (tm + immunityDuration cfg)\<rparr>,
      g\<lparr>used := Suc (used g)\<rparr>)"
    by (rule determineOutcome_False)
next
  show "updatePerson cfg w h tm q g = (q', g') \<and> status q' \<noteq> status q \<and>
    (status q' = Dead \<or> status q' = Recovered) \<longrightarrow>
      (status q' = Dead) =
        (draws g (used g' - 1) < (case ageGroup q of Child \<Rightarrow> 0.2 | Adult \<Rightarrow> 0.05 | Senior \<Rightarrow> 0.2)) \<and>
      (status q' = Dead \<longrightarrow> vx q' = 0 \<and> vy q' = 0) \<and>
      (status q' = Recovered \<longrightarrow> immunityEndTime q' = Some (tm + immunityDuration cfg))"
  proof (intro impI, elim conjE)
    assume up: "updatePerson cfg w h tm q g = (q', g')"
      and changed: "status q' \<noteq> status q"
      and final: "status q' = Dead \<or> status q' = Recovered"
    have alive: "status q \<noteq> Dead" using up changed by (auto simp: updatePerson_def)
    then obtain p1 g1 p4 g4 where
      rw: "randomWalk cfg (status q = Quarantined) q g = (p1, g1)" and
      pe: "progressExposed tm (bounce w h (displace cfg (status q = Quarantined) p1)) g1 = (p4, g4)" and
      eq: "updatePerson cfg w h tm q g = checkRecovery cfg tm (toQuarantine cfg tm p4) g4"
      by (rule updatePerson_alive)
    let ?p3 = "bounce w h (displace cfg (status q = Quarantined) p1)"
    let ?p5 = "toQuarantine cfg tm p4"
    have s3: "status ?p3 = status q \<and> ageGroup ?p3 = ageGroup q"
      using randomWalk_frame [OF rw] displace_frame [of cfg "status q = Quarantined" p1]
            bounce_frame [of w h "displace cfg (status q = Quarantined) p1"]
      by simp
    have age: "ageGroup ?p5 = ageGroup q"
      using s3 progressExposed_frame [OF pe] toQuarantine_frame [of cfg tm p4] by simp
    have src: "draws g4 = draws g"
      using randomWalk_frame [OF rw] progressExposed_frame [OF pe] by simp
    have s5: "status ?p5 = status q \<or> status ?p5 = Infected \<or> status ?p5 = Asymptomatic \<or>
              status ?p5 = Quarantined"
      using s3 progressExposed_frame [OF pe] toQuarantine_frame [of cfg tm p4] by auto
    have cr: "checkRecovery cfg tm ?p5 g4 = (q', g')" using up eq by simp
    have moved: "status q' \<noteq> status ?p5" using s5 changed final by auto
    show "(status q' = Dead) =
        (draws g (used g' - 1) < (case ageGroup q of Child \<Rightarrow> 0.2 | Adult \<Rightarrow> 0.05 | Senior \<Rightarrow> 0.2)) \<and>
      (status q' = Dead \<longrightarrow> vx q' = 0 \<and> vy q' = 0) \<and>
      (status q' = Recovered \<longrightarrow> immunityEndTime q' = Some (tm + immunityDuration cfg))"
      using checkRecovery_outcome [OF cr moved] age src by simp
  qed
qed

theorem determineOutcome_base_mortality_witness:
  "status carrier = Infected \<and> ageGroup carrier = Adult \<and>
   status (fst (updatePerson defaults 700 500 6000 carrier (drawsFrom [1 / 2, 1 / 100]))) = Dead \<and>
   vx (fst (updatePerson defaults 700 500 6000 carrier (drawsFrom [1 / 2, 1 / 100]))) = 0 \<and>
   status (fst (updatePerson defaults 700 500 6000 carrier (drawsFrom [1 / 2, 3 / 50]))) = Recovered \<and>
   immunityEndTime (fst (updatePerson defaults 700 500 6000 carrier (drawsFrom [1 / 2, 3 / 50])))
     = Some 21000"
proof -
  let ?a = "updatePerson defaults 700 500 6000 carrier (drawsFrom [1 / 2, 1 / 100])"
  let ?b = "updatePerson defaults 700 500 6000 carrier (drawsFrom [1 / 2, 3 / 50])"
  have a: "status (fst ?a) = Dead \<and> used (snd ?a) = 2"
    by (simp add: tick_unfold random_def Let_def drawsFrom_def defaults_def carrier_def)
  have b: "status (fst ?b) = Recovered \<and> used (snd ?b) = 2"
    by (simp add: tick_unfold random_def Let_def drawsFrom_def defaults_def carrier_def)
  have c: "status carrier = Infected \<and> ageGroup carrier = Adult \<and>
           immunityDuration defaults = 15000"
    by (simp add: carrier_def defaults_def)
  show ?thesis
    using determineOutcome_base_mortality
            [of defaults 6000 carrier "drawsFrom [1 / 2, 1 / 100]" 700 500 carrier "fst ?a" "snd ?a"]
          determineOutcome_base_mortality
            [of defaults 6000 carrier "drawsFrom [1 / 2, 3 / 50]" 700 500 carrier "fst ?b" "snd ?b"]
          a b c
    by simp
qed

text \<open>
  Claim C9. In every state reachable from \<open>initializeSimulation\<close>, nobody is exposed or
  asymptomatic, and both counts are zero: a successful transmission overwrites the exposed
  status with the infected one at once, \<open>initializeSimulation\<close> makes only healthy and
  infected people, and so the step from exposed to infectious, the only place where the
  asymptomatic status is assigned, never fires: it leaves a person of any status found in a
  reachable state as it is, and makes no draw.
\<close>

theorem no_exposed_no_asymptomatic:
  assumes "reachable cfg0 s"
  shows "(\<forall>p \<in> set (people s). status p \<noteq> Exposed \<and> status p \<noteq> Asymptomatic \<and>
            (\<forall>q. status q = status p \<longrightarrow> progressExposed tm q g = (q, g))) \<and>
         exposed (countStatuses (people s)) = 0 \<and>
         asymptomatic_n (countStatuses (people s)) = 0"
proof -
  have all: "list_all lifecycle (people s)" using assms by (rule reachable_lifecycle)
  have "\<forall>p \<in> set (people s). status p \<noteq> Exposed \<and> status p \<noteq> Asymptomatic \<and>
          (\<forall>q. status q = status p \<longrightarrow> progressExposed tm q g = (q, g))"
  proof
    fix p assume "p \<in> set (people s)"
    then have "lifecycle p" using all by (simp add: list_all_iff)
    then have "status p \<noteq> Exposed \<and> status p \<noteq> Asymptomatic" by (auto simp: lifecycle_def)
    then show "status p \<noteq> Exposed \<and> status p \<noteq> Asymptomatic \<and>
          (\<forall>q. status q = status p \<longrightarrow> progressExposed tm q g = (q, g))"
      by (simp add: progressExposed_def)
  qed
  then show ?thesis
    using fold_tally_lifecycle [OF all] by (simp add: countStatuses_def)
qed

theorem no_exposed_no_asymptomatic_witness:
  "reachable chainConfig (fst chainTick) \<and>
   map status (people (fst chainTick)) = [Infected, Infected, Infected] \<and>
   exposed (countStatuses (people (fst chainTick))) = 0 \<and>
   asymptomatic_n (countStatuses (people (fst chainTick))) = 0"
proof -
  have "map status (people (fst chainTick)) = [Infected, Infected, Infected]"
    by (simp add: chainTick_sim carrier_def bystander_def)
  then show ?thesis
    using no_exposed_no_asymptomatic [OF chainTick_reachable] chainTick_reachable by simp
qed

text \<open>
  Claim C10. Transmission can chain within one call of \<open>updateSimulation\<close>: there is a
  reachable state and a sequence of draws for which, in a single call, person 0 infects
  person 1 in one pair of the contact scan, and person 1, infectious at once, infects the
  healthy person 2 in a later pair of the same scan.

  The state is the one \<open>initializeSimulation\<close> returns for three people in a row; the call
  is the first call of \<open>updateSimulation\<close> after it.
\<close>

theorem same_tick_chain:
  "reachable chainConfig (fst chainStart) \<and>
   map status (people (fst chainStart)) = [Infected, Healthy, Healthy] \<and>
   infections (fst chainStart) = [] \<and>
   chainTick = updateSimulation (Some stage) chainConfig (fst chainStart) (snd chainStart) \<and>
   time (fst chainTick) = 16 \<and>
   infections (fst chainTick) = [\<lparr>from_id = 0, to_id = 1, at_time = 16\<rparr>,
                                 \<lparr>from_id = 1, to_id = 2, at_time = 16\<rparr>] \<and>
   map status (people (fst chainTick)) = [Infected, Infected, Infected] \<and>
   map infectedBy (people (fst chainTick)) = [None, Some 0, Some 1] \<and>
   map infectedTime (people (fst chainTick)) = [Some 0, Some 16, Some 16]"
proof -
  have "reachable chainConfig (fst chainStart)"
    unfolding chainStart_def by (rule reachable.init)
  moreover have "map status (people (fst chainStart)) = [Infected, Healthy, Healthy] \<and>
      infections (fst chainStart) = []"
    by (simp add: chainStart_people carrier_def bystander_def)
  moreover have "chainTick = updateSimulation (Some stage) chainConfig (fst chainStart) (snd chainStart)"
    by (simp add: chainTick_def)
  moreover have "time (fst chainTick) = 16 \<and>
      infections (fst chainTick) = [\<lparr>from_id = 0, to_id = 1, at_time = 16\<rparr>,
                                    \<lparr>from_id = 1, to_id = 2, at_time = 16\<rparr>] \<and>
      map status (people (fst chainTick)) = [Infected, Infected, Infected] \<and>
      map infectedBy (people (fst chainTick)) = [None, Some 0, Some 1] \<and>
      map infectedTime (people (fst chainTick)) = [Some 0, Some 16, Some 16]"
    by (simp add: chainTick_sim carrier_def bystander_def)
  ultimately show ?thesis by blast
qed

end
